theory Spec2Isabelle
  imports Complex_Main "HOL-Library.Word"
begin

section \<open>Values shared by the whole script\<close>

text \<open>
  The script \<^verbatim>\<open>audio_extractor.py\<close> is a Streamlit page: one top-to-bottom run per
  interaction. Everything it calls outside itself (ffprobe, ffmpeg, the json parser,
  librosa, soundfile, pydub, the file system) is taken as a parameter of the run, the
  record \<open>world\<close> below; everything the script itself decides is a definition here.

  A Python exception is the string \<open>str(e)\<close> that the handlers print.
\<close>

type_synonym exn = string
type_synonym path = string
type_synonym bytes = "8 word list"

text \<open>What \<^verbatim>\<open>json.loads\<close> returns: None, bool, int, float, str, list, dict.\<close>

datatype json =
    JNull
  | JBool bool
  | JInt int
  | JFloat real
  | JStr string
  | JArr "json list"
  | JObj "(string \<times> json) list"

text \<open>\<^verbatim>\<open>str(i)\<close> for an int: decimal digits, a minus sign for a negative one.\<close>

definition digit_char :: "nat \<Rightarrow> char" where
  "digit_char d = ''0123456789'' ! d"

fun str_nat :: "nat \<Rightarrow> string" where
  "str_nat n = (if n < 10 then [digit_char n] else str_nat (n div 10) @ [digit_char (n mod 10)])"

declare str_nat.simps [simp del]

definition str_int :: "int \<Rightarrow> string" where
  "str_int i = (if i < 0 then CHR ''-'' # str_nat (nat (- i)) else str_nat (nat i))"

text \<open>
  \<^verbatim>\<open>f"{v}"\<close> for a value read from the probe's JSON. Python's rendering of a float, a
  list or a dict is its \<^verbatim>\<open>repr\<close>, which is not part of the script: the parameter \<open>r\<close>.
\<close>

fun py_str :: "(json \<Rightarrow> string) \<Rightarrow> json \<Rightarrow> string" where
  "py_str r JNull = ''None''"
| "py_str r (JBool b) = (if b then ''True'' else ''False'')"
| "py_str r (JInt i) = str_int i"
| "py_str r (JStr s) = s"
| "py_str r v = r v"

text \<open>The name of a value's type, as Python's AttributeError and TypeError print it.\<close>

fun type_name :: "json \<Rightarrow> string" where
  "type_name JNull = ''NoneType''"
| "type_name (JBool b) = ''bool''"
| "type_name (JInt i) = ''int''"
| "type_name (JFloat x) = ''float''"
| "type_name (JStr s) = ''str''"
| "type_name (JArr xs) = ''list''"
| "type_name (JObj kvs) = ''dict''"

definition no_attribute :: "json \<Rightarrow> string \<Rightarrow> exn" where
  "no_attribute v a = [CHR 0x27] @ type_name v @ [CHR 0x27] @ '' object has no attribute ''
     @ [CHR 0x27] @ a @ [CHR 0x27]"

definition not_iterable :: "json \<Rightarrow> exn" where
  "not_iterable v = [CHR 0x27] @ type_name v @ [CHR 0x27] @ '' object is not iterable''"

text \<open>\<^verbatim>\<open>v.get(k, d)\<close>: only a dict has the method.\<close>

fun dict_get :: "json \<Rightarrow> string \<Rightarrow> json \<Rightarrow> exn + json" where
  "dict_get (JObj kvs) k d = Inr (case map_of kvs k of None \<Rightarrow> d | Some v \<Rightarrow> v)"
| "dict_get v k d = Inl (no_attribute v ''get'')"

text \<open>\<^verbatim>\<open>for stream in v\<close>: a list gives its items, a str its characters, a dict its keys.\<close>

fun py_iter :: "json \<Rightarrow> exn + json list" where
  "py_iter (JArr xs) = Inr xs"
| "py_iter (JStr s) = Inr (map (\<lambda>c. JStr [c]) s)"
| "py_iter (JObj kvs) = Inr (map (\<lambda>kv. JStr (fst kv)) kvs)"
| "py_iter v = Inl (not_iterable v)"

section \<open>The run's surroundings and its observable state\<close>

text \<open>\<^verbatim>\<open>subprocess.run\<close>'s result: \<open>'a\<close> is \<open>string\<close> with \<^verbatim>\<open>text=True\<close>, \<open>bytes\<close> without.\<close>

record 'a completed =
  returncode :: int
  stdout :: 'a
  stderr :: 'a

text \<open>The sidebar's \<^verbatim>\<open>st.selectbox("Output Format", ["mp3", "wav", "ogg"])\<close>.\<close>

datatype out_format = Mp3 | Wav | Ogg

fun format_str :: "out_format \<Rightarrow> string" where
  "format_str Mp3 = ''mp3''"
| "format_str Wav = ''wav''"
| "format_str Ogg = ''ogg''"

fun format_upper :: "out_format \<Rightarrow> string" where
  "format_upper Mp3 = ''MP3''"
| "format_upper Wav = ''WAV''"
| "format_upper Ogg = ''OGG''"

text \<open>
  A sample after numpy's division. The samples that \<^verbatim>\<open>librosa.load\<close> reads from a PCM
  file are finite; they are modelled as reals. numpy's array division does not raise on a
  zero divisor: it gives \<open>nan\<close> for \<open>0/0\<close> and a signed infinity otherwise (with a
  RuntimeWarning on stderr, which is not an exception).
\<close>

datatype sample = Fin real | PInf | NInf | NaN

record world =
  tmp_video_stem :: string
  tmp_audio_stem :: string
  tmp_output_stem :: string
  run_text :: "string list \<Rightarrow> exn + string completed"
  run_bytes :: "string list \<Rightarrow> exn + bytes completed"
  decode :: "bytes \<Rightarrow> exn + string"
  json_loads :: "string \<Rightarrow> exn + json"
  py_repr :: "json \<Rightarrow> string"
  librosa_load :: "path \<Rightarrow> exn + (real list \<times> nat)"
  librosa_preemphasis :: "real list \<Rightarrow> exn + real list"
  sf_write :: "path \<Rightarrow> sample list \<Rightarrow> nat \<Rightarrow> exn option"
  from_file :: "path \<Rightarrow> exn option"
  export :: "path \<Rightarrow> out_format \<Rightarrow> exn option"
  os_unlink :: "path \<Rightarrow> exn option"
  path_stem :: "string \<Rightarrow> string"

text \<open>What the page shows, in order.\<close>

datatype event =
    St_write string nat
  | St_video
  | St_error string
  | St_warning string
  | St_info string
  | St_success string
  | St_subheader string
  | St_audio path string
  | St_download_button string path string string
  | St_exception string

text \<open>
  The state that a run threads: the page, the external commands run, the temporary files
  that exist, the deletions attempted, the files written by soundfile and by pydub, and
  the three path variables of the extraction block (\<open>None\<close>: not bound, so not in
  \<^verbatim>\<open>locals()\<close>).
\<close>

record state =
  ui :: "event list"
  cmds :: "string list list"
  fs :: "path list"
  unlinks :: "path list"
  written :: "(path \<times> sample list \<times> nat) list"
  exported :: "(path \<times> path \<times> out_format) list"
  audio_path :: "path option"
  final_audio_path :: "path option"
  final_output_path :: "path option"

definition init_state :: state where
  "init_state = \<lparr>ui = [], cmds = [], fs = [], unlinks = [], written = [], exported = [],
     audio_path = None, final_audio_path = None, final_output_path = None\<rparr>"

definition show_ev :: "event \<Rightarrow> state \<Rightarrow> state" where
  "show_ev e s = s\<lparr>ui := ui s @ [e]\<rparr>"

definition create_file :: "path \<Rightarrow> state \<Rightarrow> state" where
  "create_file p s = (if p \<in> set (fs s) then s else s\<lparr>fs := fs s @ [p]\<rparr>)"

section \<open>Stream Prober: \<^verbatim>\<open>get_audio_streams\<close>\<close>

text \<open>The dict \<^verbatim>\<open>info\<close> of lines 47 to 56, with its eight fixed keys.\<close>

record info =
  index :: json
  codec :: json
  sample_rate :: json
  channels :: json
  duration :: json
  bit_rate :: json
  language :: json
  title :: json

definition unknown :: json where
  "unknown = JStr ''unknown''"

text \<open>
  \<^verbatim>\<open>stream.get('tags', {}).get(k, 'unknown') if 'tags' in stream else 'unknown'\<close>, for a
  stream that is a dict with the items \<open>kvs\<close>.
\<close>

definition tag_get :: "(string \<times> json) list \<Rightarrow> string \<Rightarrow> exn + json" where
  "tag_get kvs k =
     (case map_of kvs ''tags'' of
        None \<Rightarrow> Inr unknown
      | Some tags \<Rightarrow> dict_get tags k unknown)"

text \<open>
  The body of the loop, lines 47 to 56. \<^verbatim>\<open>stream.get\<close> raises at once when the stream is
  not a dict; line 48 passes no default, so a missing \<^verbatim>\<open>index\<close> is \<^verbatim>\<open>None\<close>.
\<close>

fun stream_info :: "json \<Rightarrow> exn + info" where
  "stream_info (JObj kvs) =
     (case tag_get kvs ''language'' of
        Inl e \<Rightarrow> Inl e
      | Inr lang \<Rightarrow>
          (case tag_get kvs ''title'' of
             Inl e \<Rightarrow> Inl e
           | Inr ttl \<Rightarrow>
               Inr \<lparr>index = (case map_of kvs ''index'' of None \<Rightarrow> JNull | Some v \<Rightarrow> v),
                    codec = (case map_of kvs ''codec_name'' of None \<Rightarrow> unknown | Some v \<Rightarrow> v),
                    sample_rate = (case map_of kvs ''sample_rate'' of None \<Rightarrow> unknown | Some v \<Rightarrow> v),
                    channels = (case map_of kvs ''channels'' of None \<Rightarrow> unknown | Some v \<Rightarrow> v),
                    duration = (case map_of kvs ''duration'' of None \<Rightarrow> unknown | Some v \<Rightarrow> v),
                    bit_rate = (case map_of kvs ''bit_rate'' of None \<Rightarrow> unknown | Some v \<Rightarrow> v),
                    language = lang,
                    title = ttl\<rparr>))"
| "stream_info v = Inl (no_attribute v ''get'')"

text \<open>The loop of line 46: the first exception leaves it.\<close>

fun stream_infos :: "json list \<Rightarrow> exn + info list" where
  "stream_infos [] = Inr []"
| "stream_infos (x # xs) =
     (case stream_info x of
        Inl e \<Rightarrow> Inl e
      | Inr i \<Rightarrow> (case stream_infos xs of Inl e \<Rightarrow> Inl e | Inr is \<Rightarrow> Inr (i # is)))"

text \<open>Lines 43 to 59, after the parse: \<^verbatim>\<open>data.get('streams', [])\<close> and the loop.\<close>

definition collect_streams :: "json \<Rightarrow> exn + info list" where
  "collect_streams data =
     (case dict_get data ''streams'' (JArr []) of
        Inl e \<Rightarrow> Inl e
      | Inr v \<Rightarrow> (case py_iter v of Inl e \<Rightarrow> Inl e | Inr xs \<Rightarrow> stream_infos xs))"

definition ffprobe_cmd :: "path \<Rightarrow> string list" where
  "ffprobe_cmd video_path =
     [''ffprobe'', ''-v'', ''quiet'', ''-print_format'', ''json'', ''-show_streams'',
      ''-select_streams'', ''a'', video_path]"

definition get_audio_streams :: "world \<Rightarrow> path \<Rightarrow> state \<Rightarrow> info list \<times> state" where
  "get_audio_streams w video_path s =
     (let cmd = ffprobe_cmd video_path;
          s1 = s\<lparr>cmds := cmds s @ [cmd]\<rparr>
      in case run_text w cmd of
           Inl e \<Rightarrow> ([], show_ev (St_error (''Error getting audio streams: '' @ e)) s1)
         | Inr result \<Rightarrow>
             if returncode result \<noteq> 0
             then ([], show_ev (St_error (''Error analyzing video: '' @ stderr result)) s1)
             else (case json_loads w (stdout result) of
                     Inl e \<Rightarrow> ([], show_ev (St_error (''Error getting audio streams: '' @ e)) s1)
                   | Inr data \<Rightarrow>
                       (case collect_streams data of
                          Inl e \<Rightarrow> ([], show_ev (St_error (''Error getting audio streams: '' @ e)) s1)
                        | Inr audio_streams \<Rightarrow> (audio_streams, s1))))"

section \<open>Track Extractor: \<^verbatim>\<open>extract_audio_track\<close>\<close>

definition ffmpeg_cmd :: "path \<Rightarrow> nat \<Rightarrow> path \<Rightarrow> string list" where
  "ffmpeg_cmd video_path audio_index output_path =
     [''ffmpeg'', ''-i'', video_path, ''-map'', ''0:a:'' @ str_nat audio_index, ''-vn'',
      ''-acodec'', ''pcm_s16le'', ''-ar'', ''44100'', ''-y'', output_path]"

definition extract_audio_track :: "world \<Rightarrow> path \<Rightarrow> nat \<Rightarrow> path \<Rightarrow> state \<Rightarrow> bool \<times> state" where
  "extract_audio_track w video_path audio_index output_path s =
     (let cmd = ffmpeg_cmd video_path audio_index output_path;
          s1 = s\<lparr>cmds := cmds s @ [cmd]\<rparr>
      in case run_bytes w cmd of
           Inl e \<Rightarrow> (False, show_ev (St_error (''Error extracting audio track: '' @ e)) s1)
         | Inr result \<Rightarrow>
             if returncode result \<noteq> 0
             then (case decode w (stderr result) of
                     Inl e \<Rightarrow> (False, show_ev (St_error (''Error extracting audio track: '' @ e)) s1)
                   | Inr text \<Rightarrow> (False, show_ev (St_error (''Error extracting audio: '' @ text)) s1))
             else (True, s1))"

section \<open>Track selection, lines 118 to 135\<close>

text \<open>The label of entry \<open>i\<close>, lines 120 to 130; \<open>r\<close> renders what \<open>py_str\<close> leaves open.\<close>

definition track_label :: "(json \<Rightarrow> string) \<Rightarrow> nat \<Rightarrow> info \<Rightarrow> string" where
  "track_label r i stream =
     ''Track '' @ str_nat i
     @ (if language stream \<noteq> unknown then '' - Language: '' @ py_str r (language stream) else [])
     @ (if title stream \<noteq> unknown then '' - Title: '' @ py_str r (title stream) else [])
     @ '' - Channels: '' @ py_str r (channels stream) @ '', Codec: '' @ py_str r (codec stream)"

definition track_options :: "(json \<Rightarrow> string) \<Rightarrow> info list \<Rightarrow> string list" where
  "track_options r audio_streams =
     map (\<lambda>(i, stream). track_label r i stream) (enumerate 0 audio_streams)"

text \<open>
  \<^verbatim>\<open>st.selectbox(..., options=track_options, index=0)\<close> returns one of its options: the
  entry at the position \<open>k\<close> that the user picked, the first one by default.
\<close>

definition selectbox :: "string list \<Rightarrow> nat \<Rightarrow> string" where
  "selectbox options k = (if k < length options then options ! k else options ! 0)"

text \<open>\<^verbatim>\<open>list.index\<close>: the position of the first equal item, \<open>None\<close> for its ValueError.\<close>

fun py_index :: "'a list \<Rightarrow> 'a \<Rightarrow> nat option" where
  "py_index [] x = None"
| "py_index (y # ys) x = (if y = x then Some 0 else map_option Suc (py_index ys x))"

section \<open>Enhancer, lines 147 to 156\<close>

definition np_abs :: "real list \<Rightarrow> real list" where
  "np_abs ys = map abs ys"

text \<open>\<^verbatim>\<open>np.max\<close> raises ValueError on an array of size zero.\<close>

definition np_max :: "real list \<Rightarrow> exn + real" where
  "np_max ys =
     (case ys of
        [] \<Rightarrow> Inl ''zero-size array to reduction operation maximum which has no identity''
      | y # rest \<Rightarrow> Inr (fold max rest y))"

definition np_divide1 :: "real \<Rightarrow> real \<Rightarrow> sample" where
  "np_divide1 x d =
     (if d \<noteq> 0 then Fin (x / d) else if x = 0 then NaN else if 0 < x then PInf else NInf)"

definition np_divide :: "real list \<Rightarrow> real \<Rightarrow> sample list" where
  "np_divide ys d = map (\<lambda>x. np_divide1 x d) ys"

text \<open>Line 152, \<^verbatim>\<open>y_enhanced / np.max(np.abs(y_enhanced))\<close>.\<close>

definition peak_normalize :: "real list \<Rightarrow> exn + sample list" where
  "peak_normalize y =
     (case np_max (np_abs y) of
        Inl e \<Rightarrow> Inl e
      | Inr m \<Rightarrow> Inr (np_divide y m))"

text \<open>
  \<^verbatim>\<open>s.replace(old, new)\<close>: every occurrence of \<open>old\<close>, found left to right without
  overlap; with an empty \<open>old\<close>, \<open>new\<close> goes before every character and at the end.
\<close>

fun interleave :: "string \<Rightarrow> string \<Rightarrow> string" where
  "interleave new [] = new"
| "interleave new (c # cs) = new @ c # interleave new cs"

fun replace_all :: "string \<Rightarrow> string \<Rightarrow> string \<Rightarrow> string" where
  "replace_all old new [] = []"
| "replace_all old new (c # cs) =
     (if old \<noteq> [] \<and> take (length old) (c # cs) = old
      then new @ replace_all old new (drop (length old) (c # cs))
      else c # replace_all old new cs)"

definition str_replace :: "string \<Rightarrow> string \<Rightarrow> string \<Rightarrow> string" where
  "str_replace old new s = (if old = [] then interleave new s else replace_all old new s)"

text \<open>
  The block under \<^verbatim>\<open>if enhance_audio\<close>, with \<open>ap\<close> the raw WAV. It returns the exception
  that leaves it, or the path bound to \<^verbatim>\<open>final_audio_path\<close>.
\<close>

definition enhance :: "world \<Rightarrow> path \<Rightarrow> state \<Rightarrow> (exn + path) \<times> state" where
  "enhance w ap s =
     (let s1 = show_ev (St_info ''Applying ML audio enhancement...'') s
      in case librosa_load w ap of
           Inl e \<Rightarrow> (Inl e, s1)
         | Inr (y, sr) \<Rightarrow>
             (case librosa_preemphasis w y of
                Inl e \<Rightarrow> (Inl e, s1)
              | Inr y1 \<Rightarrow>
                  (case peak_normalize y1 of
                     Inl e \<Rightarrow> (Inl e, s1)
                   | Inr y_enhanced \<Rightarrow>
                       (let enhanced_path = str_replace ''.wav'' ''_enhanced.wav'' ap
                        in case sf_write w enhanced_path y_enhanced sr of
                             Some e \<Rightarrow> (Inl e, s1)
                           | None \<Rightarrow>
                               (Inr enhanced_path,
                                (create_file enhanced_path s1)
                                  \<lparr>written := written s1 @ [(enhanced_path, y_enhanced, sr)],
                                   final_audio_path := Some enhanced_path\<rparr>)))))"

section \<open>Format Converter, lines 161 to 167\<close>

definition convert :: "world \<Rightarrow> out_format \<Rightarrow> path \<Rightarrow> state \<Rightarrow> (exn + path) \<times> state" where
  "convert w fmt fap s =
     (if fmt \<noteq> Wav
      then (case from_file w fap of
              Some e \<Rightarrow> (Inl e, s)
            | None \<Rightarrow>
                (let tmp_output = tmp_output_stem w @ ''.'' @ format_str fmt;
                     s1 = create_file tmp_output s
                 in case export w tmp_output fmt of
                      Some e \<Rightarrow> (Inl e, s1)
                    | None \<Rightarrow>
                        (Inr tmp_output,
                         s1\<lparr>exported := exported s1 @ [(fap, tmp_output, fmt)],
                            final_output_path := Some tmp_output\<rparr>)))
      else (Inr fap, s\<lparr>final_output_path := Some fap\<rparr>))"

section \<open>Session Orchestrator\<close>

text \<open>Lines 169 to 186: the success banner, the player and the download button.\<close>

definition present ::
  "world \<Rightarrow> string \<Rightarrow> out_format \<Rightarrow> info list \<Rightarrow> nat \<Rightarrow> path \<Rightarrow> state \<Rightarrow> exn option \<times> state" where
  "present w upload_name fmt audio_streams selected_index fop s =
     (let s1 = show_ev (St_success ''Audio extracted successfully!'') s
      in if \<not> selected_index < length audio_streams then (Some ''list index out of range'', s1)
         else
           (let selected_stream = audio_streams ! selected_index;
                r = py_repr w;
                s2 = show_ev (St_info (''Extracted audio: '' @ py_str r (language selected_stream)
                       @ '' ('' @ py_str r (codec selected_stream) @ '', ''
                       @ py_str r (channels selected_stream) @ '' channels)'')) s1;
                s3 = show_ev (St_audio fop (''audio/'' @ format_str fmt)) s2;
                language_suffix =
                  (if language selected_stream \<noteq> unknown
                   then ''_'' @ py_str r (language selected_stream) else [])
            in if fop \<in> set (fs s3)
               then (None,
                     show_ev (St_download_button (''Download Audio ('' @ format_upper fmt @ '')'') fop
                       (path_stem w upload_name @ language_suffix @ ''.'' @ format_str fmt)
                       (''audio/'' @ format_str fmt)) s3)
               else (Some (''[Errno 2] No such file or directory: '' @ fop), s3)))"

text \<open>
  The body of the \<^verbatim>\<open>try\<close>, lines 142 to 186: the exception that leaves it, if any, and
  the state at that point.
\<close>

definition chain ::
  "world \<Rightarrow> bool \<Rightarrow> out_format \<Rightarrow> string \<Rightarrow> path \<Rightarrow> info list \<Rightarrow> nat \<Rightarrow> state
     \<Rightarrow> exn option \<times> state" where
  "chain w enhance_audio fmt upload_name video_path audio_streams selected_index s =
     (let tmp_audio = tmp_audio_stem w @ ''.wav'';
          (ok, s1) = extract_audio_track w video_path selected_index tmp_audio (create_file tmp_audio s)
      in if \<not> ok then (None, s1)
         else
           (let s2 = s1\<lparr>audio_path := Some tmp_audio\<rparr>;
                (r3, s3) = (if enhance_audio then enhance w tmp_audio s2
                            else (Inr tmp_audio, s2\<lparr>final_audio_path := Some tmp_audio\<rparr>))
            in case r3 of
                 Inl e \<Rightarrow> (Some e, s3)
               | Inr fap \<Rightarrow>
                   (case convert w fmt fap s3 of
                      (Inl e, s4) \<Rightarrow> (Some e, s4)
                    | (Inr fop, s4) \<Rightarrow>
                        present w upload_name fmt audio_streams selected_index fop s4)))"

text \<open>
  The \<^verbatim>\<open>finally\<close> block, lines 191 to 207. Its first half closes \<^verbatim>\<open>video\<close>, a name
  the script never binds, so it does nothing. The loop looks each name up in
  \<^verbatim>\<open>locals()\<close>; \<^verbatim>\<open>video_path\<close> is always bound there.
\<close>

definition lookup_local :: "path \<Rightarrow> state \<Rightarrow> string \<Rightarrow> path option" where
  "lookup_local video_path s path_var =
     (if path_var = ''video_path'' then Some video_path
      else if path_var = ''audio_path'' then audio_path s
      else if path_var = ''final_audio_path'' then final_audio_path s
      else if path_var = ''final_output_path'' then final_output_path s
      else None)"

definition unlink_step :: "world \<Rightarrow> path \<Rightarrow> string \<Rightarrow> state \<Rightarrow> state" where
  "unlink_step w video_path path_var s =
     (case lookup_local video_path s path_var of
        None \<Rightarrow> s
      | Some p \<Rightarrow>
          if p \<in> set (fs s)
          then (case os_unlink w p of
                  None \<Rightarrow> s\<lparr>fs := removeAll p (fs s), unlinks := unlinks s @ [p]\<rparr>
                | Some e \<Rightarrow>
                    show_ev (St_warning (''Could not delete '' @ path_var @ '': '' @ e))
                      (s\<lparr>unlinks := unlinks s @ [p]\<rparr>))
          else s)"

definition cleanup :: "world \<Rightarrow> path \<Rightarrow> state \<Rightarrow> state" where
  "cleanup w video_path s =
     fold (unlink_step w video_path)
       [''video_path'', ''audio_path'', ''final_audio_path'', ''final_output_path''] s"

text \<open>The \<^verbatim>\<open>try\<close> statement under the button: body, handler of line 188, \<^verbatim>\<open>finally\<close>.\<close>

definition on_extract ::
  "world \<Rightarrow> bool \<Rightarrow> out_format \<Rightarrow> string \<Rightarrow> path \<Rightarrow> info list \<Rightarrow> nat \<Rightarrow> state \<Rightarrow> state" where
  "on_extract w enhance_audio fmt upload_name video_path audio_streams selected_index s =
     (case chain w enhance_audio fmt upload_name video_path audio_streams selected_index s of
        (None, s1) \<Rightarrow> cleanup w video_path s1
      | (Some e, s1) \<Rightarrow> cleanup w video_path (show_ev (St_error (''Error extracting audio: '' @ e)) s1))"

text \<open>The state in which the probe starts: the upload is shown and written to its file.\<close>

definition uploaded :: "world \<Rightarrow> string \<Rightarrow> nat \<Rightarrow> state" where
  "uploaded w name nbytes =
     create_file (tmp_video_stem w @ ''.mp4'')
       (show_ev St_video (show_ev (St_write name nbytes) init_state))"

text \<open>What the user does in one run: the sidebar, the upload, the track picked, the button.\<close>

record inputs =
  enhance_audio :: bool
  output_format :: out_format
  uploaded_file :: "(string \<times> nat) option"
  selected :: nat
  button :: bool

text \<open>
  One run of the script, lines 90 to 210. The static text of the page (title, sidebar,
  the expander and the footer) is left out; the upload's size is shown unformatted.
\<close>

definition script :: "world \<Rightarrow> inputs \<Rightarrow> state" where
  "script w inp =
     (case uploaded_file inp of
        None \<Rightarrow> show_ev (St_info ''Please upload a video file to get started'') init_state
      | Some (name, nbytes) \<Rightarrow>
          (let video_path = tmp_video_stem w @ ''.mp4'';
               (audio_streams, s2) = get_audio_streams w video_path (uploaded w name nbytes)
           in if audio_streams = []
              then show_ev (St_error ''No audio tracks found in the video file.'') s2
              else
                (let s3 = show_ev (St_subheader ''Available Audio Tracks'') s2;
                     options = track_options (py_repr w) audio_streams;
                     selected_track = selectbox options (selected inp)
                 in case py_index options selected_track of
                      None \<Rightarrow> show_ev (St_exception ''ValueError'') s3
                    | Some selected_index \<Rightarrow>
                        if button inp
                        then on_extract w (enhance_audio inp) (output_format inp) name video_path
                               audio_streams selected_index s3
                        else s3)))"

section \<open>Pre-emphasis\<close>

text \<open>
  Modelled from the spec: \<^verbatim>\<open>librosa.effects.preemphasis\<close> is a library function, not
  under src/. The spec calls it a first-order high-pass filter with a fixed coefficient:
  each output sample is the input sample minus the coefficient times the previous input
  sample. The spec does not say how the first sample is treated, so the filter's initial
  state is left open: \<open>zi\<close> gives it from the signal.
\<close>

fun preemph_tail :: "real \<Rightarrow> real \<Rightarrow> real list \<Rightarrow> real list" where
  "preemph_tail coef prev [] = []"
| "preemph_tail coef prev (x # xs) = (x - coef * prev) # preemph_tail coef x xs"

definition preemphasis :: "real \<Rightarrow> (real list \<Rightarrow> real) \<Rightarrow> real list \<Rightarrow> real list" where
  "preemphasis coef zi y =
     (case y of [] \<Rightarrow> [] | x # xs \<Rightarrow> (x + zi y) # preemph_tail coef x xs)"

section \<open>Vocabulary of the properties\<close>

text \<open>\<^verbatim>\<open>s.find(old)\<close>: where \<open>old\<close> first occurs in \<open>s\<close>, \<open>None\<close> for Python's -1.\<close>

fun py_find :: "string \<Rightarrow> string \<Rightarrow> nat option" where
  "py_find old [] = (if old = [] then Some 0 else None)"
| "py_find old (c # cs) =
     (if take (length old) (c # cs) = old then Some 0 else map_option Suc (py_find old cs))"

text \<open>Reading a decimal numeral back, the inverse of \<open>str_nat\<close>.\<close>

definition digit_val :: "char \<Rightarrow> nat" where
  "digit_val c = of_char c - 48"

definition nat_of_str :: "string \<Rightarrow> nat" where
  "nat_of_str cs = foldl (\<lambda>a c. 10 * a + digit_val c) 0 cs"

fun is_warning :: "event \<Rightarrow> bool" where
  "is_warning (St_warning m) = True"
| "is_warning e = False"

fun is_error :: "event \<Rightarrow> bool" where
  "is_error (St_error m) = True"
| "is_error e = False"

text \<open>The events that hand the artifact to the user: the player and the download button.\<close>

fun offers_output :: "event \<Rightarrow> bool" where
  "offers_output (St_audio p f) = True"
| "offers_output (St_download_button l p n m) = True"
| "offers_output e = False"

text \<open>
  \<open>only_warns s s'\<close>: from \<open>s\<close> to \<open>s'\<close> the page gained warnings and nothing else, and no
  command was run, no file written and no variable bound.
\<close>

definition only_warns :: "state \<Rightarrow> state \<Rightarrow> bool" where
  "only_warns s s' =
     ((\<exists>ws. ui s' = ui s @ ws \<and> list_all is_warning ws) \<and> cmds s' = cmds s
      \<and> written s' = written s \<and> exported s' = exported s \<and> audio_path s' = audio_path s
      \<and> final_audio_path s' = final_audio_path s \<and> final_output_path s' = final_output_path s)"

section \<open>Concrete runs\<close>

definition eng_stream :: json where
  "eng_stream = JObj [(''index'', JInt 1), (''codec_name'', JStr ''aac''), (''channels'', JInt 2),
     (''tags'', JObj [(''language'', JStr ''eng'')])]"

text \<open>The descriptor that the probe makes of \<open>eng_stream\<close>.\<close>

definition eng_info :: info where
  "eng_info = \<lparr>index = JInt 1, codec = JStr ''aac'', sample_rate = unknown, channels = JInt 2,
     duration = unknown, bit_rate = unknown, language = JStr ''eng'', title = unknown\<rparr>"

text \<open>
  A run in which every tool succeeds: the video has two audio streams with the same
  language, codec and channel count, and the extracted track is silent.
\<close>

definition demo_world :: world where
  "demo_world = \<lparr>
     tmp_video_stem = ''/tmp/v'',
     tmp_audio_stem = ''/tmp/a'',
     tmp_output_stem = ''/tmp/o'',
     run_text = (\<lambda>cmd. Inr \<lparr>returncode = 0, stdout = ''{}'', stderr = []\<rparr>),
     run_bytes = (\<lambda>cmd. Inr \<lparr>returncode = 0, stdout = [], stderr = []\<rparr>),
     decode = (\<lambda>b. Inr []),
     json_loads = (\<lambda>s. Inr (JObj [(''streams'', JArr [eng_stream, eng_stream])])),
     py_repr = (\<lambda>v. []),
     librosa_load = (\<lambda>p. Inr ([0, 0, 0], 44100)),
     librosa_preemphasis = (\<lambda>y. Inr (preemphasis (97 / 100) (\<lambda>y. 0) y)),
     sf_write = (\<lambda>p y sr. None),
     from_file = (\<lambda>p. None),
     export = (\<lambda>p f. None),
     os_unlink = (\<lambda>p. None),
     path_stem = (\<lambda>n. takeWhile (\<lambda>c. c \<noteq> CHR ''.'') n)\<rparr>"

definition demo_inputs :: inputs where
  "demo_inputs = \<lparr>enhance_audio = True, output_format = Wav,
     uploaded_file = Some (''clip.mp4'', 1000), selected = 1, button = True\<rparr>"

text \<open>The probe exits with status 1.\<close>

definition probe_fail_world :: world where
  "probe_fail_world = demo_world
     \<lparr>run_text := (\<lambda>cmd. Inr \<lparr>returncode = 1, stdout = [], stderr = ''moov atom not found''\<rparr>)\<rparr>"

text \<open>The probe finds no audio stream.\<close>

definition no_audio_world :: world where
  "no_audio_world = demo_world\<lparr>json_loads := (\<lambda>s. Inr (JObj [(''streams'', JArr [])]))\<rparr>"

text \<open>ffmpeg exits with status 1 and a message on stderr that decodes.\<close>

definition extract_fail_world :: world where
  "extract_fail_world = demo_world
     \<lparr>run_bytes := (\<lambda>cmd. Inr \<lparr>returncode = 1, stdout = [], stderr = [0x6E, 0x6F]\<rparr>),
      decode := (\<lambda>b. Inr ''no'')\<rparr>"

text \<open>ffmpeg exits with status 1 and stderr holds a byte that is not UTF-8.\<close>

definition undecodable_world :: world where
  "undecodable_world = demo_world
     \<lparr>run_bytes := (\<lambda>cmd. Inr \<lparr>returncode = 1, stdout = [], stderr = [0xFF]\<rparr>),
      decode := (\<lambda>b. Inl ''invalid start byte'')\<rparr>"

text \<open>The extracted track is not silent.\<close>

definition loud_world :: world where
  "loud_world = demo_world\<lparr>librosa_load := (\<lambda>p. Inr ([1 / 2, 1 / 4], 44100))\<rparr>"

section \<open>Basic facts about the state\<close>

lemma ui_show_ev [simp]: "ui (show_ev e s) = ui s @ [e]"
  and cmds_show_ev [simp]: "cmds (show_ev e s) = cmds s"
  and fs_show_ev [simp]: "fs (show_ev e s) = fs s"
  and unlinks_show_ev [simp]: "unlinks (show_ev e s) = unlinks s"
  and written_show_ev [simp]: "written (show_ev e s) = written s"
  and exported_show_ev [simp]: "exported (show_ev e s) = exported s"
  and audio_path_show_ev [simp]: "audio_path (show_ev e s) = audio_path s"
  and final_audio_path_show_ev [simp]: "final_audio_path (show_ev e s) = final_audio_path s"
  and final_output_path_show_ev [simp]: "final_output_path (show_ev e s) = final_output_path s"
  by (simp_all add: show_ev_def)

lemma ui_create_file [simp]: "ui (create_file p s) = ui s"
  and cmds_create_file [simp]: "cmds (create_file p s) = cmds s"
  and unlinks_create_file [simp]: "unlinks (create_file p s) = unlinks s"
  and written_create_file [simp]: "written (create_file p s) = written s"
  and exported_create_file [simp]: "exported (create_file p s) = exported s"
  and audio_path_create_file [simp]: "audio_path (create_file p s) = audio_path s"
  and final_audio_path_create_file [simp]: "final_audio_path (create_file p s) = final_audio_path s"
  and final_output_path_create_file [simp]: "final_output_path (create_file p s) = final_output_path s"
  and set_fs_create_file [simp]: "set (fs (create_file p s)) = insert p (set (fs s))"
  by (auto simp add: create_file_def)

section \<open>Decimal numerals\<close>

lemma digit_cases: "d < 10 \<Longrightarrow> d = 0 \<or> d = 1 \<or> d = 2 \<or> d = 3 \<or> d = 4 \<or> d = 5 \<or> d = 6 \<or> d = 7 \<or> d = 8 \<or> d = (9::nat)"
  by arith

lemma digit_val_digit_char: "d < 10 \<Longrightarrow> digit_val (digit_char d) = d"
  using digit_cases [of d] by (auto simp add: digit_val_def digit_char_def)

lemma digit_char_not_space: "d < 10 \<Longrightarrow> digit_char d \<noteq> CHR '' ''"
  using digit_cases [of d] by (auto simp add: digit_char_def)

lemma nat_of_str_str_nat: "nat_of_str (str_nat n) = n"
proof (induction n rule: str_nat.induct)
  case (1 n)
  show ?case
  proof (cases "n < 10")
    case True
    then show ?thesis
      by (simp add: str_nat.simps [of n] nat_of_str_def digit_val_digit_char)
  next
    case False
    with 1 have "nat_of_str (str_nat (n div 10)) = n div 10" by simp
    with False show ?thesis
      by (simp add: str_nat.simps [of n] nat_of_str_def digit_val_digit_char)
  qed
qed

lemma str_nat_inj: "str_nat m = str_nat n \<Longrightarrow> m = n"
  by (metis nat_of_str_str_nat)

lemma space_notin_str_nat: "CHR '' '' \<notin> set (str_nat n)"
proof (induction n rule: str_nat.induct)
  case (1 n)
  show ?case
  proof (cases "n < 10")
    case True
    then show ?thesis
      using digit_char_not_space [of n] by (auto simp add: str_nat.simps [of n])
  next
    case False
    with 1 have "CHR '' '' \<notin> set (str_nat (n div 10))" by simp
    with False show ?thesis
      using digit_char_not_space [of "n mod 10"] by (auto simp add: str_nat.simps [of n])
  qed
qed

section \<open>Labels are told apart by their position\<close>

lemma split_at_first:
  "c \<notin> set xs \<Longrightarrow> c \<notin> set ys \<Longrightarrow> xs @ c # r = ys @ c # r' \<Longrightarrow> xs = ys"
proof (induction xs arbitrary: ys)
  case Nil
  then show ?case by (cases ys) auto
next
  case (Cons x xs)
  then show ?case by (cases ys) auto
qed

lemma track_label_shape:
  "\<exists>rest. track_label r i stream = ''Track '' @ str_nat i @ CHR '' '' # rest"
  by (simp add: track_label_def)

lemma track_label_inj: "track_label r i a = track_label r j b \<Longrightarrow> i = j"
proof -
  assume eq: "track_label r i a = track_label r j b"
  obtain ra where ra: "track_label r i a = ''Track '' @ str_nat i @ CHR '' '' # ra"
    using track_label_shape by blast
  obtain rb where rb: "track_label r j b = ''Track '' @ str_nat j @ CHR '' '' # rb"
    using track_label_shape by blast
  from eq ra rb have "str_nat i @ CHR '' '' # ra = str_nat j @ CHR '' '' # rb" by simp
  then have "str_nat i = str_nat j"
    by (rule split_at_first [OF space_notin_str_nat space_notin_str_nat])
  then show ?thesis by (rule str_nat_inj)
qed

lemma length_track_options [simp]: "length (track_options r streams) = length streams"
  by (simp add: track_options_def)

lemma nth_track_options:
  "k < length streams \<Longrightarrow> track_options r streams ! k = track_label r k (streams ! k)"
  by (simp add: track_options_def nth_enumerate_eq)

lemma distinct_track_options: "distinct (track_options r streams)"
  unfolding distinct_conv_nth
  by (auto simp add: nth_track_options dest: track_label_inj)

lemma py_index_nth_distinct:
  "distinct xs \<Longrightarrow> k < length xs \<Longrightarrow> py_index xs (xs ! k) = Some k"
proof (induction xs arbitrary: k)
  case Nil
  then show ?case by simp
next
  case (Cons x xs)
  show ?case
  proof (cases k)
    case 0
    then show ?thesis by simp
  next
    case (Suc m)
    with Cons.prems have "xs ! m \<noteq> x" "m < length xs" "distinct xs" by auto
    with Cons.IH [of m] Suc show ?thesis by auto
  qed
qed

lemma selected_index_is_position:
  "k < length streams \<Longrightarrow>
   py_index (track_options r streams) (selectbox (track_options r streams) k) = Some k"
  by (simp add: selectbox_def py_index_nth_distinct distinct_track_options)


section \<open>What each block leaves alone\<close>

lemma only_warns_refl: "only_warns s s"
  by (simp add: only_warns_def)

lemma only_warns_trans: "only_warns a b \<Longrightarrow> only_warns b c \<Longrightarrow> only_warns a c"
  by (auto simp add: only_warns_def)

lemma only_warns_unlink_step: "only_warns s (unlink_step w vp v s)"
  by (auto simp add: only_warns_def unlink_step_def split: option.splits)

lemma only_warns_cleanup: "only_warns s (cleanup w vp s)"
proof -
  let ?a = "unlink_step w vp ''video_path'' s"
  let ?b = "unlink_step w vp ''audio_path'' ?a"
  let ?c = "unlink_step w vp ''final_audio_path'' ?b"
  have "only_warns s ?a" by (rule only_warns_unlink_step)
  moreover have "only_warns ?a ?b" by (rule only_warns_unlink_step)
  moreover have "only_warns ?b ?c" by (rule only_warns_unlink_step)
  moreover have "only_warns ?c (unlink_step w vp ''final_output_path'' ?c)"
    by (rule only_warns_unlink_step)
  ultimately have "only_warns s (unlink_step w vp ''final_output_path'' ?c)"
    by (blast intro: only_warns_trans)
  then show ?thesis by (simp add: cleanup_def)
qed

lemma extract_audio_track_cmds:
  "cmds (snd (extract_audio_track w vp k out s)) = cmds s @ [ffmpeg_cmd vp k out]"
  by (simp add: extract_audio_track_def Let_def split: sum.splits)

lemma extract_audio_track_failed:
  assumes "run_bytes w (ffmpeg_cmd vp k out) = Inr result" and "returncode result \<noteq> 0"
  shows "extract_audio_track w vp k out s =
    (False,
     show_ev (St_error (case decode w (stderr result) of
                          Inl e \<Rightarrow> ''Error extracting audio track: '' @ e
                        | Inr text \<Rightarrow> ''Error extracting audio: '' @ text))
       (s\<lparr>cmds := cmds s @ [ffmpeg_cmd vp k out]\<rparr>))"
  using assms by (simp add: extract_audio_track_def Let_def split: sum.splits)

lemma extract_audio_track_ok:
  assumes "run_bytes w (ffmpeg_cmd vp k out) = Inr result" and "returncode result = 0"
  shows "extract_audio_track w vp k out s = (True, s\<lparr>cmds := cmds s @ [ffmpeg_cmd vp k out]\<rparr>)"
  using assms by (simp add: extract_audio_track_def Let_def)

lemma enhance_cmds: "cmds (snd (enhance w ap s)) = cmds s"
  by (simp add: enhance_def Let_def split: sum.splits option.splits prod.splits)

lemma convert_cmds: "cmds (snd (convert w fmt fap s)) = cmds s"
  by (simp add: convert_def Let_def split: sum.splits option.splits prod.splits)

lemma present_cmds: "cmds (snd (present w name fmt streams k fop s)) = cmds s"
  by (simp add: present_def Let_def)

lemma chain_cmds:
  "cmds (snd (chain w en fmt name vp streams k s))
     = cmds s @ [ffmpeg_cmd vp k (tmp_audio_stem w @ ''.wav'')]"
proof -
  let ?tmp = "tmp_audio_stem w @ ''.wav''"
  obtain ok s1 where e: "extract_audio_track w vp k ?tmp (create_file ?tmp s) = (ok, s1)"
    by (cases "extract_audio_track w vp k ?tmp (create_file ?tmp s)")
  have c1: "cmds s1 = cmds s @ [ffmpeg_cmd vp k ?tmp]"
    using extract_audio_track_cmds [of w vp k ?tmp "create_file ?tmp s"] e by simp
  show ?thesis
  proof (cases ok)
    case False
    with e c1 show ?thesis by (simp add: chain_def Let_def)
  next
    case True
    let ?s2 = "s1\<lparr>audio_path := Some ?tmp\<rparr>"
    obtain r3 s3 where r3: "(if en then enhance w ?tmp ?s2
        else (Inr ?tmp, ?s2\<lparr>final_audio_path := Some ?tmp\<rparr>)) = (r3, s3)"
      by (cases "if en then enhance w ?tmp ?s2 else (Inr ?tmp, ?s2\<lparr>final_audio_path := Some ?tmp\<rparr>)")
    have c3: "cmds s3 = cmds s1"
      using r3 enhance_cmds [of w ?tmp ?s2] by (auto split: if_splits)
    show ?thesis
    proof (cases r3)
      case (Inl e3)
      with e True r3 c1 c3 show ?thesis by (simp add: chain_def Let_def)
    next
      case (Inr fap)
      obtain r4 s4 where r4: "convert w fmt fap s3 = (r4, s4)"
        by (cases "convert w fmt fap s3")
      have c4: "cmds s4 = cmds s3" using convert_cmds [of w fmt fap s3] r4 by simp
      show ?thesis
      proof (cases r4)
        case (Inl e4)
        with e True r3 Inr r4 c1 c3 c4 show ?thesis by (simp add: chain_def Let_def)
      next
        case (Inr fop)
        with e True r3 \<open>r3 = Inr fap\<close> r4 c1 c3 c4 present_cmds [of w name fmt streams k fop s4]
        show ?thesis by (simp add: chain_def Let_def)
      qed
    qed
  qed
qed

lemma on_extract_cmds:
  "cmds (on_extract w en fmt name vp streams k s)
     = cmds s @ [ffmpeg_cmd vp k (tmp_audio_stem w @ ''.wav'')]"
proof -
  obtain r s1 where c: "chain w en fmt name vp streams k s = (r, s1)"
    by (cases "chain w en fmt name vp streams k s")
  then have "cmds s1 = cmds s @ [ffmpeg_cmd vp k (tmp_audio_stem w @ ''.wav'')]"
    using chain_cmds [of w en fmt name vp streams k s] by simp
  moreover have "cmds (cleanup w vp x) = cmds x" for x
    using only_warns_cleanup [of x w vp] by (simp add: only_warns_def)
  ultimately show ?thesis
    using c by (simp add: on_extract_def split: option.splits)
qed

lemma get_audio_streams_cmds:
  "cmds (snd (get_audio_streams w vp s)) = cmds s @ [ffprobe_cmd vp]"
  by (simp add: get_audio_streams_def Let_def split: sum.splits)

lemma cmds_uploaded: "cmds (uploaded w name nbytes) = []"
  by (simp add: uploaded_def init_state_def)

section \<open>Facts about the concrete runs\<close>

lemma stream_info_eng_stream:
  "stream_info eng_stream =
     Inr eng_info"
  by (simp add: eng_stream_def eng_info_def tag_get_def)

lemma demo_probe:
  "fst (get_audio_streams demo_world vp s) =
     [eng_info, eng_info]"
  by (simp add: get_audio_streams_def demo_world_def collect_streams_def stream_info_eng_stream)

section \<open>Track Extractor invocation\<close>

text \<open>
  C8. When the button is pressed on a probed list, the run invokes exactly two commands:
  the probe, and ffmpeg with input the video, \<^verbatim>\<open>-map 0:a:N\<close> where \<open>N\<close> is the position of
  the picked entry in the list of options, \<^verbatim>\<open>-vn\<close>, \<^verbatim>\<open>-acodec pcm_s16le\<close>,
  \<^verbatim>\<open>-ar 44100\<close>, \<^verbatim>\<open>-y\<close> and the temporary WAV as output. The descriptors, and so their
  \<^verbatim>\<open>index\<close> fields, are arbitrary: \<open>N\<close> does not depend on them.
\<close>

theorem extractor_command:
  assumes "uploaded_file inp = Some (name, nbytes)"
    and "fst (get_audio_streams w (tmp_video_stem w @ ''.mp4'') (uploaded w name nbytes))
           = audio_streams"
    and "selected inp < length audio_streams"
    and "button inp"
  shows "cmds (script w inp) =
     [ffprobe_cmd (tmp_video_stem w @ ''.mp4''),
      [''ffmpeg'', ''-i'', tmp_video_stem w @ ''.mp4'', ''-map'',
       ''0:a:'' @ str_nat (selected inp), ''-vn'', ''-acodec'', ''pcm_s16le'',
       ''-ar'', ''44100'', ''-y'', tmp_audio_stem w @ ''.wav'']]"
proof -
  let ?vp = "tmp_video_stem w @ ''.mp4''"
  obtain s2 where g: "get_audio_streams w ?vp (uploaded w name nbytes) = (audio_streams, s2)"
    using assms(2) by (cases "get_audio_streams w ?vp (uploaded w name nbytes)") simp
  have c2: "cmds s2 = [ffprobe_cmd ?vp]"
    using get_audio_streams_cmds [of w ?vp "uploaded w name nbytes"] g
    by (simp add: cmds_uploaded)
  have ne: "audio_streams \<noteq> []" using assms(3) by auto
  have sel: "py_index (track_options (py_repr w) audio_streams)
      (selectbox (track_options (py_repr w) audio_streams) (selected inp)) = Some (selected inp)"
    using assms(3) by (rule selected_index_is_position)
  have "script w inp = on_extract w (enhance_audio inp) (output_format inp) name ?vp
      audio_streams (selected inp) (show_ev (St_subheader ''Available Audio Tracks'') s2)"
    using assms(1,4) g ne sel by (simp add: script_def Let_def)
  then show ?thesis
    by (simp add: on_extract_cmds c2 ffmpeg_cmd_def)
qed

theorem extractor_command_witness:
  "cmds (script demo_world demo_inputs) =
     [ffprobe_cmd ''/tmp/v.mp4'',
      [''ffmpeg'', ''-i'', ''/tmp/v.mp4'', ''-map'', ''0:a:'' @ str_nat 1, ''-vn'', ''-acodec'',
       ''pcm_s16le'', ''-ar'', ''44100'', ''-y'', ''/tmp/a.wav'']]"
proof -
  have u: "uploaded_file demo_inputs = Some (''clip.mp4'', 1000)"
    by (simp add: demo_inputs_def)
  have v: "tmp_video_stem demo_world = ''/tmp/v''" and a: "tmp_audio_stem demo_world = ''/tmp/a''"
    by (simp_all add: demo_world_def)
  have k: "selected demo_inputs = 1" and b: "button demo_inputs"
    by (simp_all add: demo_inputs_def)
  have l: "selected demo_inputs < length (fst (get_audio_streams demo_world
      (tmp_video_stem demo_world @ ''.mp4'') (uploaded demo_world ''clip.mp4'' 1000)))"
    by (simp add: demo_probe k)
  from extractor_command [OF u refl l b] show ?thesis
    by (simp add: v a k)
qed

section \<open>Selection among equal-looking tracks\<close>

text \<open>
  C10, as amended. The label of an entry starts with its position, so the labels of a
  list are pairwise different whatever the descriptors hold, and the picked entry always
  resolves to its own position, never to an earlier one.
\<close>

theorem selection_resolves_to_own_position:
  assumes "k < length audio_streams"
  shows "distinct (track_options r audio_streams)
     \<and> py_index (track_options r audio_streams) (selectbox (track_options r audio_streams) k)
         = Some k"
  using assms by (simp add: distinct_track_options selected_index_is_position)

theorem selection_resolves_to_own_position_witness:
  "distinct (track_options (\<lambda>v. []) [eng_info, eng_info])
     \<and> py_index (track_options (\<lambda>v. []) [eng_info, eng_info])
           (selectbox (track_options (\<lambda>v. []) [eng_info, eng_info]) 1)
         = Some 1"
proof -
  have "(1::nat) < length [eng_info, eng_info]" by simp
  from selection_resolves_to_own_position [OF this] show ?thesis by simp
qed

text \<open>
  C10 as stated fails: two streams with the same language, title, channel count and codec
  do not get the same label, and picking the later one resolves to the later one.
\<close>

theorem duplicate_labels_counterexample:
  "\<not> (\<forall>r audio_streams i j. i < j \<and> j < length audio_streams
        \<and> language (audio_streams ! i) = language (audio_streams ! j)
        \<and> title (audio_streams ! i) = title (audio_streams ! j)
        \<and> channels (audio_streams ! i) = channels (audio_streams ! j)
        \<and> codec (audio_streams ! i) = codec (audio_streams ! j)
      \<longrightarrow> py_index (track_options r audio_streams)
            (selectbox (track_options r audio_streams) j) = Some i)"
proof
  assume h: "\<forall>r audio_streams i j. i < j \<and> j < length audio_streams
        \<and> language (audio_streams ! i) = language (audio_streams ! j)
        \<and> title (audio_streams ! i) = title (audio_streams ! j)
        \<and> channels (audio_streams ! i) = channels (audio_streams ! j)
        \<and> codec (audio_streams ! i) = codec (audio_streams ! j)
      \<longrightarrow> py_index (track_options r audio_streams)
            (selectbox (track_options r audio_streams) j) = Some i"
  let ?r = "\<lambda>v::json. []::string"
  from h [rule_format, of 0 1 "[eng_info, eng_info]" ?r]
  have "py_index (track_options ?r [eng_info, eng_info])
      (selectbox (track_options ?r [eng_info, eng_info]) 1) = Some 0"
    by simp
  moreover have "py_index (track_options ?r [eng_info, eng_info])
      (selectbox (track_options ?r [eng_info, eng_info]) 1) = Some 1"
    by (rule selected_index_is_position) simp
  ultimately show False by simp
qed

section \<open>The probe's outcomes\<close>

lemma get_audio_streams_failed:
  assumes "run_text w (ffprobe_cmd vp) = Inr result"
    and "returncode result \<noteq> 0 \<or> isl (json_loads w (stdout result))"
  shows "\<exists>msg. get_audio_streams w vp s
     = ([], show_ev (St_error msg) (s\<lparr>cmds := cmds s @ [ffprobe_cmd vp]\<rparr>))"
proof (cases "returncode result \<noteq> 0")
  case True
  with assms(1) show ?thesis
    by (intro exI [of _ "''Error analyzing video: '' @ stderr result"])
      (simp add: get_audio_streams_def Let_def)
next
  case False
  with assms(2) obtain e where "json_loads w (stdout result) = Inl e"
    by (cases "json_loads w (stdout result)") auto
  with False assms(1) show ?thesis
    by (intro exI [of _ "''Error getting audio streams: '' @ e"])
      (simp add: get_audio_streams_def Let_def)
qed

lemma get_audio_streams_fs:
  "fs (snd (get_audio_streams w vp s)) = fs s \<and> unlinks (snd (get_audio_streams w vp s)) = unlinks s"
  by (simp add: get_audio_streams_def Let_def split: sum.splits)

lemma script_no_streams:
  assumes "uploaded_file inp = Some (name, nbytes)"
    and "fst (get_audio_streams w (tmp_video_stem w @ ''.mp4'') (uploaded w name nbytes)) = []"
  shows "script w inp = show_ev (St_error ''No audio tracks found in the video file.'')
     (snd (get_audio_streams w (tmp_video_stem w @ ''.mp4'') (uploaded w name nbytes)))"
proof -
  obtain s2 where
    "get_audio_streams w (tmp_video_stem w @ ''.mp4'') (uploaded w name nbytes) = ([], s2)"
    using assms(2)
    by (cases "get_audio_streams w (tmp_video_stem w @ ''.mp4'') (uploaded w name nbytes)") simp
  with assms(1) show ?thesis by (simp add: script_def Let_def)
qed

lemma chain_extract_failed:
  assumes "run_bytes w (ffmpeg_cmd vp k (tmp_audio_stem w @ ''.wav'')) = Inr result"
    and "returncode result \<noteq> 0"
  shows "chain w en fmt name vp streams k s =
    (None,
     show_ev (St_error (case decode w (stderr result) of
                          Inl e \<Rightarrow> ''Error extracting audio track: '' @ e
                        | Inr text \<Rightarrow> ''Error extracting audio: '' @ text))
       ((create_file (tmp_audio_stem w @ ''.wav'') s)
          \<lparr>cmds := cmds s @ [ffmpeg_cmd vp k (tmp_audio_stem w @ ''.wav'')]\<rparr>))"
  by (simp add: chain_def Let_def extract_audio_track_failed [OF assms])

section \<open>No re-encoding for WAV\<close>

lemma extract_audio_track_exported:
  "exported (snd (extract_audio_track w vp k out s)) = exported s"
  by (simp add: extract_audio_track_def Let_def split: sum.splits)

lemma enhance_exported: "exported (snd (enhance w ap s)) = exported s"
  by (simp add: enhance_def Let_def split: sum.splits option.splits prod.splits)

lemma present_exported: "exported (snd (present w name fmt streams k fop s)) = exported s"
  by (simp add: present_def Let_def)

lemma convert_wav: "convert w Wav fap s = (Inr fap, s\<lparr>final_output_path := Some fap\<rparr>)"
  by (simp add: convert_def)

lemma chain_exported_wav:
  "exported (snd (chain w en Wav name vp streams k s)) = exported s"
proof -
  let ?tmp = "tmp_audio_stem w @ ''.wav''"
  obtain ok s1 where e: "extract_audio_track w vp k ?tmp (create_file ?tmp s) = (ok, s1)"
    by (cases "extract_audio_track w vp k ?tmp (create_file ?tmp s)")
  have c1: "exported s1 = exported s"
    using extract_audio_track_exported [of w vp k ?tmp "create_file ?tmp s"] e by simp
  show ?thesis
  proof (cases ok)
    case False
    with e c1 show ?thesis by (simp add: chain_def Let_def)
  next
    case True
    let ?s2 = "s1\<lparr>audio_path := Some ?tmp\<rparr>"
    obtain r3 s3 where r3: "(if en then enhance w ?tmp ?s2
        else (Inr ?tmp, ?s2\<lparr>final_audio_path := Some ?tmp\<rparr>)) = (r3, s3)"
      by (cases "if en then enhance w ?tmp ?s2 else (Inr ?tmp, ?s2\<lparr>final_audio_path := Some ?tmp\<rparr>)")
    have c3: "exported s3 = exported s1"
      using r3 enhance_exported [of w ?tmp ?s2] by (auto split: if_splits)
    show ?thesis
    proof (cases r3)
      case (Inl e3)
      with e True r3 c1 c3 show ?thesis by (simp add: chain_def Let_def)
    next
      case (Inr fap)
      with e True r3 c1 c3
        present_exported [of w name Wav streams k fap "s3\<lparr>final_output_path := Some fap\<rparr>"]
      show ?thesis by (simp add: chain_def Let_def convert_wav)
    qed
  qed
qed

text \<open>
  C7. With the target \<^verbatim>\<open>wav\<close> the converter calls neither \<^verbatim>\<open>AudioSegment.from_file\<close> nor
  \<^verbatim>\<open>export\<close>: it returns the path it was given, binds \<^verbatim>\<open>final_output_path\<close> to it
  and changes nothing else; and a whole extraction with that target exports no file.
\<close>

theorem wav_target_reuses_path:
  "convert w Wav fap s = (Inr fap, s\<lparr>final_output_path := Some fap\<rparr>)
   \<and> exported (on_extract w en Wav name vp streams k s) = exported s"
proof -
  obtain r s1 where c: "chain w en Wav name vp streams k s = (r, s1)"
    by (cases "chain w en Wav name vp streams k s")
  then have "exported s1 = exported s"
    using chain_exported_wav [of w en name vp streams k s] by simp
  moreover have "exported (cleanup w vp x) = exported x" for x
    using only_warns_cleanup [of x w vp] by (simp add: only_warns_def)
  ultimately have "exported (on_extract w en Wav name vp streams k s) = exported s"
    using c by (simp add: on_extract_def split: option.splits)
  then show ?thesis by (simp add: convert_wav)
qed

section \<open>Probe failure\<close>

text \<open>
  C5. When ffprobe exits non-zero, or \<^verbatim>\<open>json.loads\<close> raises on its output, the prober
  shows one error and returns the empty list. Whenever the prober returns the empty list,
  for whatever reason, the run shows "No audio tracks found in the video file." after what
  the prober showed and stops: the probe is the only command it has run.
\<close>

theorem probe_failure_is_no_audio:
  assumes "uploaded_file inp = Some (name, nbytes)"
  shows "(run_text w (ffprobe_cmd vp) = Inr result
           \<and> (returncode result \<noteq> 0 \<or> isl (json_loads w (stdout result)))
          \<longrightarrow> (\<exists>msg. get_audio_streams w vp s
                 = ([], show_ev (St_error msg) (s\<lparr>cmds := cmds s @ [ffprobe_cmd vp]\<rparr>))))
    \<and> (fst (get_audio_streams w (tmp_video_stem w @ ''.mp4'') (uploaded w name nbytes)) = []
          \<longrightarrow> script w inp = show_ev (St_error ''No audio tracks found in the video file.'')
                 (snd (get_audio_streams w (tmp_video_stem w @ ''.mp4'') (uploaded w name nbytes)))
              \<and> cmds (script w inp) = [ffprobe_cmd (tmp_video_stem w @ ''.mp4'')])"
proof (intro conjI impI)
  assume "run_text w (ffprobe_cmd vp) = Inr result
    \<and> (returncode result \<noteq> 0 \<or> isl (json_loads w (stdout result)))"
  then show "\<exists>msg. get_audio_streams w vp s
      = ([], show_ev (St_error msg) (s\<lparr>cmds := cmds s @ [ffprobe_cmd vp]\<rparr>))"
    using get_audio_streams_failed [of w vp result s] by blast
next
  assume e: "fst (get_audio_streams w (tmp_video_stem w @ ''.mp4'') (uploaded w name nbytes)) = []"
  show "script w inp = show_ev (St_error ''No audio tracks found in the video file.'')
      (snd (get_audio_streams w (tmp_video_stem w @ ''.mp4'') (uploaded w name nbytes)))"
    using assms e by (rule script_no_streams)
next
  assume e: "fst (get_audio_streams w (tmp_video_stem w @ ''.mp4'') (uploaded w name nbytes)) = []"
  show "cmds (script w inp) = [ffprobe_cmd (tmp_video_stem w @ ''.mp4'')]"
    by (simp add: script_no_streams [OF assms e] get_audio_streams_cmds cmds_uploaded)
qed

lemma probe_fail_world_run:
  "run_text probe_fail_world cmd
     = Inr \<lparr>returncode = 1, stdout = [], stderr = ''moov atom not found''\<rparr>"
  by (simp add: probe_fail_world_def)

theorem probe_failure_is_no_audio_witness:
  "(\<exists>msg. get_audio_streams probe_fail_world ''/tmp/v.mp4'' init_state
        = ([], show_ev (St_error msg) (init_state\<lparr>cmds := cmds init_state @ [ffprobe_cmd ''/tmp/v.mp4'']\<rparr>)))
   \<and> script probe_fail_world demo_inputs
       = show_ev (St_error ''No audio tracks found in the video file.'')
           (snd (get_audio_streams probe_fail_world (tmp_video_stem probe_fail_world @ ''.mp4'')
                  (uploaded probe_fail_world ''clip.mp4'' 1000)))
   \<and> cmds (script probe_fail_world demo_inputs)
       = [ffprobe_cmd (tmp_video_stem probe_fail_world @ ''.mp4'')]"
proof -
  have u: "uploaded_file demo_inputs = Some (''clip.mp4'', 1000)"
    by (simp add: demo_inputs_def)
  have e: "fst (get_audio_streams probe_fail_world vp s) = []" for vp s
    by (simp add: get_audio_streams_def probe_fail_world_run)
  from probe_failure_is_no_audio [OF u, of probe_fail_world "''/tmp/v.mp4''"
      "\<lparr>returncode = 1, stdout = [], stderr = ''moov atom not found''\<rparr>" init_state]
  show ?thesis by (simp add: probe_fail_world_run e get_audio_streams_cmds cmds_uploaded)
qed

section \<open>Extraction failure\<close>

text \<open>
  C4, as amended. When ffmpeg exits non-zero, \<^verbatim>\<open>extract_audio_track\<close> returns False and
  the page gains one error: "Error extracting audio: " followed by the stderr text, when
  the stderr bytes decode; "Error extracting audio track: " followed by the decoding
  error's message, when they do not. After it come only warnings of the cleanup: nothing is
  enhanced, converted or offered, and no path variable is bound.
\<close>

theorem extraction_failure_aborts:
  assumes "run_bytes w (ffmpeg_cmd vp k (tmp_audio_stem w @ ''.wav'')) = Inr result"
    and "returncode result \<noteq> 0"
  shows "fst (extract_audio_track w vp k (tmp_audio_stem w @ ''.wav'') s0) = False
    \<and> (\<exists>ws. ui (on_extract w en fmt name vp streams k s)
           = ui s @ [St_error (case decode w (stderr result) of
                                 Inl e \<Rightarrow> ''Error extracting audio track: '' @ e
                               | Inr text \<Rightarrow> ''Error extracting audio: '' @ text)] @ ws
          \<and> list_all is_warning ws)
    \<and> written (on_extract w en fmt name vp streams k s) = written s
    \<and> exported (on_extract w en fmt name vp streams k s) = exported s
    \<and> final_audio_path (on_extract w en fmt name vp streams k s) = final_audio_path s
    \<and> final_output_path (on_extract w en fmt name vp streams k s) = final_output_path s"
proof -
  let ?tmp = "tmp_audio_stem w @ ''.wav''"
  let ?msg = "case decode w (stderr result) of
                Inl e \<Rightarrow> ''Error extracting audio track: '' @ e
              | Inr text \<Rightarrow> ''Error extracting audio: '' @ text"
  let ?s1 = "show_ev (St_error ?msg)
    ((create_file ?tmp s)\<lparr>cmds := cmds s @ [ffmpeg_cmd vp k ?tmp]\<rparr>)"
  have "chain w en fmt name vp streams k s = (None, ?s1)"
    using assms by (rule chain_extract_failed)
  then have o: "on_extract w en fmt name vp streams k s = cleanup w vp ?s1"
    by (simp add: on_extract_def)
  have "only_warns ?s1 (cleanup w vp ?s1)" by (rule only_warns_cleanup)
  then have "(\<exists>ws. ui (cleanup w vp ?s1) = ui s @ [St_error ?msg] @ ws \<and> list_all is_warning ws)
    \<and> written (cleanup w vp ?s1) = written s \<and> exported (cleanup w vp ?s1) = exported s
    \<and> final_audio_path (cleanup w vp ?s1) = final_audio_path s
    \<and> final_output_path (cleanup w vp ?s1) = final_output_path s"
    by (simp add: only_warns_def)
  with o show ?thesis
    by (simp add: extract_audio_track_failed [OF assms])
qed

lemma extract_fail_world_run:
  "run_bytes extract_fail_world cmd = Inr \<lparr>returncode = 1, stdout = [], stderr = [0x6E, 0x6F]\<rparr>"
  by (simp add: extract_fail_world_def)

theorem extraction_failure_aborts_witness:
  "fst (extract_audio_track extract_fail_world ''/tmp/v.mp4'' 1
          (tmp_audio_stem extract_fail_world @ ''.wav'') init_state) = False
   \<and> (\<exists>ws. ui (on_extract extract_fail_world True Mp3 ''clip.mp4'' ''/tmp/v.mp4''
                   [eng_info, eng_info] 1 init_state)
           = [St_error ''Error extracting audio: no''] @ ws
          \<and> list_all is_warning ws)
   \<and> written (on_extract extract_fail_world True Mp3 ''clip.mp4'' ''/tmp/v.mp4''
                [eng_info, eng_info] 1 init_state) = []
   \<and> exported (on_extract extract_fail_world True Mp3 ''clip.mp4'' ''/tmp/v.mp4''
                 [eng_info, eng_info] 1 init_state) = []
   \<and> final_output_path (on_extract extract_fail_world True Mp3 ''clip.mp4'' ''/tmp/v.mp4''
                          [eng_info, eng_info] 1 init_state) = None"
proof -
  have r: "returncode \<lparr>returncode = 1, stdout = [], stderr = [0x6E, 0x6F :: 8 word]\<rparr> \<noteq> 0"
    by simp
  have d: "decode extract_fail_world b = Inr ''no''" for b
    by (simp add: extract_fail_world_def)
  from extraction_failure_aborts [OF extract_fail_world_run r,
      of "''/tmp/v.mp4''" 1 init_state True Mp3 "''clip.mp4''" "[eng_info, eng_info]" init_state]
  show ?thesis by (simp add: d init_state_def)
qed

text \<open>
  C4 as stated fails when the stderr bytes are not valid UTF-8: \<^verbatim>\<open>result.stderr.decode()\<close>
  raises inside the function, the handler of line 85 catches it, and the page shows the
  decoding error instead of the stderr text.
\<close>

theorem undecodable_stderr_counterexample:
  "extract_audio_track undecodable_world ''/tmp/v.mp4'' 1 ''/tmp/a.wav'' init_state
     = (False,
        show_ev (St_error ''Error extracting audio track: invalid start byte'')
          (init_state\<lparr>cmds := [ffmpeg_cmd ''/tmp/v.mp4'' 1 ''/tmp/a.wav'']\<rparr>))"
proof -
  have "run_bytes undecodable_world (ffmpeg_cmd ''/tmp/v.mp4'' 1 ''/tmp/a.wav'')
      = Inr \<lparr>returncode = 1, stdout = [], stderr = [0xFF]\<rparr>"
    by (simp add: undecodable_world_def)
  moreover have "decode undecodable_world b = Inl ''invalid start byte''" for b
    by (simp add: undecodable_world_def)
  ultimately show ?thesis
    by (simp add: extract_audio_track_def Let_def init_state_def)
qed

section \<open>A descriptor without an index\<close>

text \<open>
  C3, at a stream entry that has a codec name and nothing else: every other missing
  field becomes "unknown", but \<^verbatim>\<open>index\<close>, read by line 48 without a default, is None.
\<close>

theorem missing_index_is_none:
  "stream_info (JObj [(''codec_name'', JStr ''aac'')])
     = Inr \<lparr>index = JNull, codec = JStr ''aac'', sample_rate = JStr ''unknown'',
            channels = JStr ''unknown'', duration = JStr ''unknown'',
            bit_rate = JStr ''unknown'', language = JStr ''unknown'',
            title = JStr ''unknown''\<rparr>"
  by (simp add: tag_get_def unknown_def)

section \<open>Temporary files that stay behind\<close>

lemma fs_uploaded:
  "fs (uploaded w name nbytes) = [tmp_video_stem w @ ''.mp4'']
   \<and> unlinks (uploaded w name nbytes) = []"
  by (simp add: uploaded_def create_file_def show_ev_def init_state_def)

lemma script_pressed:
  assumes "uploaded_file inp = Some (name, nbytes)"
    and "get_audio_streams w (tmp_video_stem w @ ''.mp4'') (uploaded w name nbytes)
           = (audio_streams, s2)"
    and "selected inp < length audio_streams"
    and "button inp"
  shows "script w inp = on_extract w (enhance_audio inp) (output_format inp) name
      (tmp_video_stem w @ ''.mp4'') audio_streams (selected inp)
      (show_ev (St_subheader ''Available Audio Tracks'') s2)"
proof -
  have ne: "audio_streams \<noteq> []" using assms(3) by auto
  have sel: "py_index (track_options (py_repr w) audio_streams)
      (selectbox (track_options (py_repr w) audio_streams) (selected inp)) = Some (selected inp)"
    using assms(3) by (rule selected_index_is_position)
  show ?thesis
    using assms(1,2,4) ne sel by (simp add: script_def Let_def)
qed

lemma cleanup_unbound:
  assumes "audio_path s = None" and "final_audio_path s = None" and "final_output_path s = None"
    and "os_unlink w vp = None" and "vp \<in> set (fs s)"
  shows "fs (cleanup w vp s) = removeAll vp (fs s) \<and> unlinks (cleanup w vp s) = unlinks s @ [vp]"
  using assms by (simp add: cleanup_def unlink_step_def lookup_local_def)

lemma extract_fail_run:
  "fs (script extract_fail_world demo_inputs) = [''/tmp/a.wav'']
   \<and> unlinks (script extract_fail_world demo_inputs) = [''/tmp/v.mp4'']"
proof -
  let ?w = extract_fail_world
  have u: "uploaded_file demo_inputs = Some (''clip.mp4'', 1000)"
    and k: "selected demo_inputs = 1" and b: "button demo_inputs"
    by (simp_all add: demo_inputs_def)
  have v: "tmp_video_stem ?w = ''/tmp/v''" and a: "tmp_audio_stem ?w = ''/tmp/a''"
    and d: "os_unlink ?w p = None" for p
    by (simp_all add: extract_fail_world_def demo_world_def)
  obtain streams s2 where g: "get_audio_streams ?w (tmp_video_stem ?w @ ''.mp4'')
      (uploaded ?w ''clip.mp4'' 1000) = (streams, s2)"
    by (cases "get_audio_streams ?w (tmp_video_stem ?w @ ''.mp4'') (uploaded ?w ''clip.mp4'' 1000)")
  have e: "fst (get_audio_streams ?w vp s) = [eng_info, eng_info]" for vp s
    by (simp add: get_audio_streams_def extract_fail_world_def demo_world_def
        collect_streams_def stream_info_eng_stream)
  have l: "selected demo_inputs < length streams"
    using e [of "tmp_video_stem ?w @ ''.mp4''" "uploaded ?w ''clip.mp4'' 1000"] g
    by (simp add: k)
  have f2: "fs s2 = [''/tmp/v.mp4'']" and n2: "unlinks s2 = []"
    using g get_audio_streams_fs [of ?w "tmp_video_stem ?w @ ''.mp4''" "uploaded ?w ''clip.mp4'' 1000"]
    by (simp_all add: fs_uploaded v)
  have p2: "audio_path s2 = None \<and> final_audio_path s2 = None \<and> final_output_path s2 = None"
    using g by (auto simp add: get_audio_streams_def Let_def uploaded_def create_file_def
        init_state_def split: sum.splits if_splits)
  let ?s3 = "show_ev (St_subheader ''Available Audio Tracks'') s2"
  have r: "returncode \<lparr>returncode = 1, stdout = [], stderr = [0x6E, 0x6F :: 8 word]\<rparr> \<noteq> 0"
    by simp
  obtain s4 where c: "chain ?w (enhance_audio demo_inputs) (output_format demo_inputs) ''clip.mp4''
      (tmp_video_stem ?w @ ''.mp4'') streams (selected demo_inputs) ?s3 = (None, s4)"
    and s4: "s4 = show_ev (St_error ''Error extracting audio: no'')
      ((create_file (tmp_audio_stem ?w @ ''.wav'') ?s3)
         \<lparr>cmds := cmds ?s3 @ [ffmpeg_cmd (tmp_video_stem ?w @ ''.mp4'') (selected demo_inputs)
            (tmp_audio_stem ?w @ ''.wav'')]\<rparr>)"
    using chain_extract_failed [where w = ?w and vp = "tmp_video_stem ?w @ ''.mp4''"
        and k = "selected demo_inputs" and en = "enhance_audio demo_inputs"
        and fmt = "output_format demo_inputs" and name = "''clip.mp4''" and streams = streams
        and s = ?s3, OF extract_fail_world_run r]
    by (simp add: extract_fail_world_def)
  have o: "script ?w demo_inputs = cleanup ?w (tmp_video_stem ?w @ ''.mp4'') s4"
    using script_pressed [OF u g l b] c by (simp add: on_extract_def)
  have "fs s4 = [''/tmp/v.mp4'', ''/tmp/a.wav'']" and "unlinks s4 = []"
    and "audio_path s4 = None" and "final_audio_path s4 = None" and "final_output_path s4 = None"
    using f2 n2 p2 by (simp_all add: s4 a create_file_def)
  with cleanup_unbound [of s4 ?w "tmp_video_stem ?w @ ''.mp4''"] d o
  show ?thesis by (simp add: v)
qed

text \<open>
  C1, at two runs. At a video without audio streams the run ends at line 113 with the
  temporary video still on disk and no deletion attempted. When ffmpeg fails, the
  \<^verbatim>\<open>finally\<close> block deletes the video, but \<^verbatim>\<open>audio_path\<close> was never bound, so the
  temporary WAV that line 142 created stays on disk.
\<close>

theorem no_audio_leaves_video:
  "unlinks (script no_audio_world demo_inputs) = []
   \<and> fs (script no_audio_world demo_inputs) = [''/tmp/v.mp4'']
   \<and> unlinks (script extract_fail_world demo_inputs) = [''/tmp/v.mp4'']
   \<and> fs (script extract_fail_world demo_inputs) = [''/tmp/a.wav'']"
proof -
  have u: "uploaded_file demo_inputs = Some (''clip.mp4'', 1000)"
    by (simp add: demo_inputs_def)
  have v: "tmp_video_stem no_audio_world = ''/tmp/v''"
    by (simp add: no_audio_world_def demo_world_def)
  have e: "fst (get_audio_streams no_audio_world vp s) = []" for vp s
    by (simp add: get_audio_streams_def no_audio_world_def demo_world_def collect_streams_def)
  have "unlinks (script no_audio_world demo_inputs) = []
      \<and> fs (script no_audio_world demo_inputs) = [''/tmp/v.mp4'']"
    by (simp add: script_no_streams [OF u e] get_audio_streams_fs fs_uploaded v)
  with extract_fail_run show ?thesis by simp
qed

section \<open>Peak normalization\<close>

lemma np_max_nonempty: "ys \<noteq> [] \<Longrightarrow> np_max ys = Inr (Max (set ys))"
  by (cases ys) (simp_all add: np_max_def Max.set_eq_fold [symmetric])

lemma np_max_Inr: "np_max ys = Inr m \<Longrightarrow> ys \<noteq> [] \<and> m = Max (set ys)"
  by (cases ys) (simp_all add: np_max_def Max.set_eq_fold [symmetric])

lemma np_divide_nonzero: "m \<noteq> 0 \<Longrightarrow> np_divide ys m = map Fin (map (\<lambda>x. x / m) ys)"
  by (simp add: np_divide_def np_divide1_def)

lemma peak_positive:
  assumes "list_ex (\<lambda>x. x \<noteq> 0) ys"
  shows "0 < Max (set (np_abs ys))"
proof -
  from assms obtain x where x: "x \<in> set ys" "x \<noteq> 0" by (auto simp add: list_ex_iff)
  then have "\<bar>x\<bar> \<in> set (np_abs ys)" by (simp add: np_abs_def)
  then have "\<bar>x\<bar> \<le> Max (set (np_abs ys))" by simp
  with x(2) show ?thesis by simp
qed

lemma peak_of_scaled:
  assumes "ys \<noteq> []" and "0 < Max (set (np_abs ys))"
  shows "Max (set (np_abs (map (\<lambda>x. x / Max (set (np_abs ys))) ys))) = 1"
proof -
  let ?m = "Max (set (np_abs ys))"
  let ?zs = "np_abs (map (\<lambda>x. x / ?m) ys)"
  have ne: "set (np_abs ys) \<noteq> {}" using assms(1) by (simp add: np_abs_def)
  have "?m \<in> set (np_abs ys)" using ne by (intro Max_in) simp_all
  then obtain x where x: "x \<in> set ys" "\<bar>x\<bar> = ?m" by (auto simp add: np_abs_def)
  have xm: "\<bar>x / ?m\<bar> = 1" using x(2) assms(2) by simp
  have "\<bar>x / ?m\<bar> \<in> abs ` (\<lambda>y. y / ?m) ` set ys" using x(1) by (intro imageI)
  then have "\<bar>x / ?m\<bar> \<in> set ?zs" by (simp only: np_abs_def set_map)
  then have one: "1 \<in> set ?zs" unfolding xm .
  have le: "z \<le> 1" if "z \<in> set ?zs" for z
  proof -
    from that obtain y where y: "y \<in> set ys" "z = \<bar>y / ?m\<bar>" by (auto simp add: np_abs_def)
    have "\<bar>y\<bar> \<in> set (np_abs ys)" using y(1) by (simp add: np_abs_def)
    then have "\<bar>y\<bar> \<le> ?m" by simp
    with assms(2) y(2) show ?thesis by (simp add: divide_le_eq)
  qed
  show ?thesis by (rule Max_eqI) (use one le in auto)
qed

lemma peak_normalize_nonsilent:
  assumes "list_ex (\<lambda>x. x \<noteq> 0) ys"
  shows "peak_normalize ys = Inr (map Fin (map (\<lambda>x. x / Max (set (np_abs ys))) ys))
    \<and> np_max (np_abs (map (\<lambda>x. x / Max (set (np_abs ys))) ys)) = Inr 1"
proof -
  have ne: "ys \<noteq> []" using assms by auto
  have pos: "0 < Max (set (np_abs ys))" using assms by (rule peak_positive)
  have "np_max (np_abs ys) = Inr (Max (set (np_abs ys)))"
    using ne by (simp add: np_max_nonempty np_abs_def)
  then have "peak_normalize ys = Inr (map Fin (map (\<lambda>x. x / Max (set (np_abs ys))) ys))"
    using pos by (simp add: peak_normalize_def np_divide_nonzero)
  moreover have "np_max (np_abs (map (\<lambda>x. x / Max (set (np_abs ys))) ys)) = Inr 1"
    using ne peak_of_scaled [OF ne pos] by (simp add: np_max_nonempty np_abs_def)
  ultimately show ?thesis by simp
qed

lemma peak_normalize_unit_peak:
  assumes "np_max (np_abs ys) = Inr 1"
  shows "peak_normalize ys = Inr (map Fin ys)"
  using assms by (simp add: peak_normalize_def np_divide_nonzero)

lemma preemphasis_twice:
  assumes "coef \<noteq> 0"
  shows "preemphasis coef zi (preemphasis coef zi [0, 1, 0]) \<noteq> preemphasis coef zi [0, 1, 0]"
  using assms by (simp add: preemphasis_def)

text \<open>
  C9. Peak normalization of a non-silent signal gives a signal whose peak is exactly 1,
  and normalizing that signal again gives it back: in particular a signal whose peak is
  already 1 is left as it is. Pre-emphasis with a non-zero coefficient is not idempotent:
  applying it twice to the signal 0, 1, 0 differs from applying it once, whatever the
  filter's initial state.
\<close>

theorem normalization_idempotent_on_peak:
  assumes "list_ex (\<lambda>x. x \<noteq> 0) ys" and "coef \<noteq> 0"
  shows "(\<exists>zs. peak_normalize ys = Inr (map Fin zs) \<and> np_max (np_abs zs) = Inr 1
            \<and> peak_normalize zs = Inr (map Fin zs))
    \<and> (np_max (np_abs ys) = Inr 1 \<longrightarrow> peak_normalize ys = Inr (map Fin ys))
    \<and> preemphasis coef zi (preemphasis coef zi [0, 1, 0]) \<noteq> preemphasis coef zi [0, 1, 0]"
proof -
  let ?zs = "map (\<lambda>x. x / Max (set (np_abs ys))) ys"
  from peak_normalize_nonsilent [OF assms(1)]
  have a: "peak_normalize ys = Inr (map Fin ?zs)" and b: "np_max (np_abs ?zs) = Inr 1"
    by simp_all
  from b have "peak_normalize ?zs = Inr (map Fin ?zs)" by (rule peak_normalize_unit_peak)
  with a b have "\<exists>zs. peak_normalize ys = Inr (map Fin zs) \<and> np_max (np_abs zs) = Inr 1
      \<and> peak_normalize zs = Inr (map Fin zs)" by blast
  then show ?thesis
    using peak_normalize_unit_peak [of ys] preemphasis_twice [OF assms(2), of zi] by blast
qed

theorem normalization_idempotent_on_peak_witness:
  "(\<exists>zs. peak_normalize [1 / 2, - 1 / 4] = Inr (map Fin zs) \<and> np_max (np_abs zs) = Inr 1
        \<and> peak_normalize zs = Inr (map Fin zs))
   \<and> preemphasis (97 / 100) (\<lambda>y. 0) (preemphasis (97 / 100) (\<lambda>y. 0) [0, 1, 0])
       \<noteq> preemphasis (97 / 100) (\<lambda>y. 0) [0, 1, 0]"
proof -
  have h: "list_ex (\<lambda>x. x \<noteq> 0) [1 / 2, - 1 / 4 :: real]" by simp
  have c: "(97 / 100 :: real) \<noteq> 0" by simp
  from normalization_idempotent_on_peak [OF h c, of "\<lambda>y. 0"] show ?thesis by blast
qed

section \<open>The Enhancer's block\<close>

lemma replace_all_suffix:
  "py_find ''.wav'' (stem @ ''.wav'') = Some (length stem)
   \<Longrightarrow> replace_all ''.wav'' new (stem @ ''.wav'') = stem @ new"
proof (induction stem)
  case Nil
  show ?case by simp
next
  case (Cons c cs)
  let ?t = "take (length ''.wav'') (c # cs @ ''.wav'') = ''.wav''"
  from Cons.prems
  have p: "(if ?t then Some 0 else map_option Suc (py_find ''.wav'' (cs @ ''.wav'')))
      = Some (Suc (length cs))"
    by (simp only: append_Cons py_find.simps length_Cons)
  have n: "\<not> ?t"
  proof
    assume ?t
    with p have "Some (0::nat) = Some (Suc (length cs))" by (simp only: if_True simp_thms)
    then show False by simp
  qed
  with p have "map_option Suc (py_find ''.wav'' (cs @ ''.wav'')) = Some (Suc (length cs))"
    by (simp only: if_False simp_thms)
  then have "py_find ''.wav'' (cs @ ''.wav'') = Some (length cs)"
    by (cases "py_find ''.wav'' (cs @ ''.wav'')") auto
  then have "replace_all ''.wav'' new (cs @ ''.wav'') = cs @ new" by (rule Cons.IH)
  with n show ?case
    by (simp only: append_Cons replace_all.simps simp_thms if_False)
qed

lemma str_replace_suffix:
  "py_find ''.wav'' (stem @ ''.wav'') = Some (length stem)
   \<Longrightarrow> str_replace ''.wav'' ''_enhanced.wav'' (stem @ ''.wav'') = stem @ ''_enhanced.wav''"
  by (simp add: str_replace_def replace_all_suffix)

lemma enhance_ok:
  assumes "librosa_load w ap = Inr (y, sr)"
    and "librosa_preemphasis w y = Inr y1"
    and "peak_normalize y1 = Inr y2"
    and "sf_write w (str_replace ''.wav'' ''_enhanced.wav'' ap) y2 sr = None"
  shows "enhance w ap s =
    (Inr (str_replace ''.wav'' ''_enhanced.wav'' ap),
     (create_file (str_replace ''.wav'' ''_enhanced.wav'' ap)
        (show_ev (St_info ''Applying ML audio enhancement...'') s))
       \<lparr>written := written s @ [(str_replace ''.wav'' ''_enhanced.wav'' ap, y2, sr)],
        final_audio_path := Some (str_replace ''.wav'' ''_enhanced.wav'' ap)\<rparr>)"
  using assms by (simp add: enhance_def Let_def)

lemma all_zero_replicate: "list_all (\<lambda>x. x = 0) ys \<Longrightarrow> ys = replicate (length ys) (0::real)"
  by (induction ys) auto

lemma peak_normalize_silent:
  assumes "ys \<noteq> []" and "list_all (\<lambda>x. x = 0) ys"
  shows "peak_normalize ys = Inr (replicate (length ys) NaN)"
proof -
  obtain n where n: "ys = replicate (Suc n) 0"
    using assms all_zero_replicate [of ys] by (cases "length ys") auto
  have "np_max (np_abs ys) = Inr 0"
    by (simp add: n np_max_nonempty np_abs_def set_replicate_conv_if)
  moreover have "np_divide ys 0 = replicate (length ys) NaN"
    by (simp add: n np_divide_def np_divide1_def)
  ultimately show ?thesis by (simp add: peak_normalize_def)
qed

lemma demo_world_enhance_facts:
  "librosa_load demo_world p = Inr ([0, 0, 0], 44100)"
  "librosa_preemphasis demo_world [0, 0, 0] = Inr [0, 0, 0]"
  "sf_write demo_world p d sr = None"
  "tmp_audio_stem demo_world = ''/tmp/a''"
  by (simp_all add: demo_world_def preemphasis_def)

lemma find_tmp_a: "py_find ''.wav'' (''/tmp/a'' @ ''.wav'') = Some (length ''/tmp/a'')"
  by simp

lemma enhance_demo_world:
  "enhance demo_world ''/tmp/a.wav'' s =
    (Inr ''/tmp/a_enhanced.wav'',
     (create_file ''/tmp/a_enhanced.wav''
        (show_ev (St_info ''Applying ML audio enhancement...'') s))
       \<lparr>written := written s @ [(''/tmp/a_enhanced.wav'', [NaN, NaN, NaN], 44100)],
        final_audio_path := Some ''/tmp/a_enhanced.wav''\<rparr>)"
proof -
  have r: "str_replace ''.wav'' ''_enhanced.wav'' ''/tmp/a.wav'' = ''/tmp/a_enhanced.wav''"
    using str_replace_suffix [OF find_tmp_a] by simp
  have p: "peak_normalize [0, 0, 0] = Inr [NaN, NaN, NaN]"
    using peak_normalize_silent [of "[0, 0, 0]"] by (simp add: numeral_3_eq_3)
  have "sf_write demo_world (str_replace ''.wav'' ''_enhanced.wav'' ''/tmp/a.wav'')
      [NaN, NaN, NaN] 44100 = None"
    by (rule demo_world_enhance_facts)
  from enhance_ok [OF demo_world_enhance_facts(1) demo_world_enhance_facts(2) p this, of s]
  show ?thesis by (simp only: r)
qed

text \<open>
  C6, as amended. Given a WAV whose pre-emphasised signal is not silent, and whose path
  holds \<^verbatim>\<open>.wav\<close> only as its extension, the block of lines 147 to 156 applies pre-emphasis,
  then divides every sample by the largest absolute value, which makes the peak exactly 1;
  it writes that signal to the path with \<^verbatim>\<open>_enhanced\<close> before the extension (when
  \<^verbatim>\<open>sf.write\<close> succeeds), binds \<^verbatim>\<open>final_audio_path\<close> to it, attempts no deletion and
  removes no file.
\<close>

theorem enhancer_contract:
  assumes "librosa_load w (stem @ ''.wav'') = Inr (y, sr)"
    and "librosa_preemphasis w y = Inr y1"
    and "list_ex (\<lambda>x. x \<noteq> 0) y1"
    and "py_find ''.wav'' (stem @ ''.wav'') = Some (length stem)"
    and "\<And>d. sf_write w (stem @ ''_enhanced.wav'') d sr = None"
  shows "(\<exists>zs. enhance w (stem @ ''.wav'') s =
            (Inr (stem @ ''_enhanced.wav''),
             (create_file (stem @ ''_enhanced.wav'')
                (show_ev (St_info ''Applying ML audio enhancement...'') s))
               \<lparr>written := written s @ [(stem @ ''_enhanced.wav'', map Fin zs, sr)],
                final_audio_path := Some (stem @ ''_enhanced.wav'')\<rparr>)
          \<and> zs = map (\<lambda>x. x / Max (set (np_abs y1))) y1
          \<and> np_max (np_abs zs) = Inr 1)
    \<and> unlinks (snd (enhance w (stem @ ''.wav'') s)) = unlinks s
    \<and> set (fs (snd (enhance w (stem @ ''.wav'') s)))
        = insert (stem @ ''_enhanced.wav'') (set (fs s))"
proof -
  let ?zs = "map (\<lambda>x. x / Max (set (np_abs y1))) y1"
  let ?ep = "stem @ ''_enhanced.wav''"
  have r: "str_replace ''.wav'' ''_enhanced.wav'' (stem @ ''.wav'') = ?ep"
    using assms(4) by (rule str_replace_suffix)
  from peak_normalize_nonsilent [OF assms(3)]
  have p: "peak_normalize y1 = Inr (map Fin ?zs)" and q: "np_max (np_abs ?zs) = Inr 1"
    by simp_all
  have "sf_write w (str_replace ''.wav'' ''_enhanced.wav'' (stem @ ''.wav'')) (map Fin ?zs) sr
      = None"
    by (simp only: r assms(5))
  from enhance_ok [OF assms(1) assms(2) p this, of s]
  have e: "enhance w (stem @ ''.wav'') s =
      (Inr ?ep,
       (create_file ?ep (show_ev (St_info ''Applying ML audio enhancement...'') s))
         \<lparr>written := written s @ [(?ep, map Fin ?zs, sr)], final_audio_path := Some ?ep\<rparr>)"
    by (simp only: r)
  have "unlinks (snd (enhance w (stem @ ''.wav'') s)) = unlinks s"
    and "set (fs (snd (enhance w (stem @ ''.wav'') s))) = insert ?ep (set (fs s))"
    by (simp_all add: e)
  with e q show ?thesis by blast
qed

lemma loud_world_facts:
  "librosa_load loud_world (''/tmp/a'' @ ''.wav'') = Inr ([1 / 2, 1 / 4], 44100)"
  "librosa_preemphasis loud_world [1 / 2, 1 / 4] = Inr [1 / 2, - 47 / 200]"
  "sf_write loud_world p d sr = None"
  by (simp_all add: loud_world_def demo_world_def preemphasis_def)

theorem enhancer_contract_witness:
  "\<exists>zs. fst (enhance loud_world (''/tmp/a'' @ ''.wav'') init_state) = Inr (''/tmp/a'' @ ''_enhanced.wav'')
     \<and> written (snd (enhance loud_world (''/tmp/a'' @ ''.wav'') init_state))
         = [(''/tmp/a'' @ ''_enhanced.wav'', map Fin zs, 44100)]
     \<and> np_max (np_abs zs) = Inr 1
     \<and> unlinks (snd (enhance loud_world (''/tmp/a'' @ ''.wav'') init_state)) = []"
proof -
  have h: "list_ex (\<lambda>x. x \<noteq> 0) [1 / 2, - 47 / 200 :: real]" by simp
  from enhancer_contract [OF loud_world_facts(1) loud_world_facts(2) h find_tmp_a
      loud_world_facts(3), of init_state]
  obtain zs where
    e: "enhance loud_world (''/tmp/a'' @ ''.wav'') init_state =
      (Inr (''/tmp/a'' @ ''_enhanced.wav''),
       (create_file (''/tmp/a'' @ ''_enhanced.wav'')
          (show_ev (St_info ''Applying ML audio enhancement...'') init_state))
         \<lparr>written := written init_state @ [(''/tmp/a'' @ ''_enhanced.wav'', map Fin zs, 44100)],
          final_audio_path := Some (''/tmp/a'' @ ''_enhanced.wav'')\<rparr>)"
    and q: "np_max (np_abs zs) = Inr 1"
    by blast
  have "fst (enhance loud_world (''/tmp/a'' @ ''.wav'') init_state) = Inr (''/tmp/a'' @ ''_enhanced.wav'')"
    and "written (snd (enhance loud_world (''/tmp/a'' @ ''.wav'') init_state))
         = [(''/tmp/a'' @ ''_enhanced.wav'', map Fin zs, 44100)]"
    and "unlinks (snd (enhance loud_world (''/tmp/a'' @ ''.wav'') init_state)) = []"
    unfolding e by (simp_all add: init_state_def)
  with q show ?thesis by blast
qed

text \<open>
  C6 as stated fails in two ways. On a silent track the samples written are NaN, so the
  peak is not 1. And \<^verbatim>\<open>str.replace\<close> rewrites every \<^verbatim>\<open>.wav\<close> of the path, not only the
  extension.
\<close>

theorem enhancer_counterexample:
  "written (snd (enhance demo_world ''/tmp/a.wav'' init_state))
     = [(''/tmp/a_enhanced.wav'', [NaN, NaN, NaN], 44100)]
   \<and> str_replace ''.wav'' ''_enhanced.wav'' ''/srv/a.wav.d/t.wav''
       = ''/srv/a_enhanced.wav.d/t_enhanced.wav''"
  by (simp add: enhance_demo_world init_state_def str_replace_def)

section \<open>A silent track\<close>

lemma warnings_are_not_errors: "list_all is_warning ws \<Longrightarrow> \<not> list_ex is_error ws"
proof (induction ws)
  case Nil
  show ?case by simp
next
  case (Cons e ws)
  then show ?case by (cases e) simp_all
qed

lemma on_extract_enhanced_wav:
  assumes "run_bytes w (ffmpeg_cmd vp k (tmp_audio_stem w @ ''.wav'')) = Inr result"
    and "returncode result = 0"
    and "librosa_load w (tmp_audio_stem w @ ''.wav'') = Inr (y, sr)"
    and "librosa_preemphasis w y = Inr y1"
    and "peak_normalize y1 = Inr y2"
    and "sf_write w (str_replace ''.wav'' ''_enhanced.wav'' (tmp_audio_stem w @ ''.wav'')) y2 sr
           = None"
    and "k < length streams"
  shows "written (on_extract w True Wav name vp streams k s)
      = written s @ [(str_replace ''.wav'' ''_enhanced.wav'' (tmp_audio_stem w @ ''.wav''), y2, sr)]
    \<and> (\<exists>shown file_name ws. ui (on_extract w True Wav name vp streams k s)
          = ui s @ [St_info ''Applying ML audio enhancement...'',
                    St_success ''Audio extracted successfully!'',
                    St_info shown,
                    St_audio (str_replace ''.wav'' ''_enhanced.wav'' (tmp_audio_stem w @ ''.wav''))
                      ''audio/wav'',
                    St_download_button ''Download Audio (WAV)''
                      (str_replace ''.wav'' ''_enhanced.wav'' (tmp_audio_stem w @ ''.wav''))
                      file_name ''audio/wav''] @ ws
         \<and> list_all is_warning ws)"
proof -
  let ?tmp = "tmp_audio_stem w @ ''.wav''"
  let ?ep = "str_replace ''.wav'' ''_enhanced.wav'' ?tmp"
  let ?s2 = "((create_file ?tmp s)\<lparr>cmds := cmds s @ [ffmpeg_cmd vp k ?tmp]\<rparr>)
    \<lparr>audio_path := Some ?tmp\<rparr>"
  let ?s3 = "(create_file ?ep (show_ev (St_info ''Applying ML audio enhancement...'') ?s2))
    \<lparr>written := written ?s2 @ [(?ep, y2, sr)], final_audio_path := Some ?ep\<rparr>"
  have x: "extract_audio_track w vp k ?tmp (create_file ?tmp s)
      = (True, (create_file ?tmp s)\<lparr>cmds := cmds (create_file ?tmp s) @ [ffmpeg_cmd vp k ?tmp]\<rparr>)"
    using assms(1,2) by (rule extract_audio_track_ok)
  have e: "enhance w ?tmp ?s2 = (Inr ?ep, ?s3)"
    using assms(3,4,5,6) by (rule enhance_ok)
  obtain r5 s5 where p: "present w name Wav streams k ?ep (?s3\<lparr>final_output_path := Some ?ep\<rparr>)
      = (r5, s5)"
    by (cases "present w name Wav streams k ?ep (?s3\<lparr>final_output_path := Some ?ep\<rparr>)")
  have c: "chain w True Wav name vp streams k s = (r5, s5)"
    using p by (simp add: chain_def Let_def x e convert_wav)
  have m: "?ep \<in> set (fs (?s3\<lparr>final_output_path := Some ?ep\<rparr>))" by simp
  from p have r5: "r5 = None"
    and w5: "written s5 = written s @ [(?ep, y2, sr)]"
    and u5: "\<exists>shown file_name. ui s5 = ui s @ [St_info ''Applying ML audio enhancement...'',
        St_success ''Audio extracted successfully!'', St_info shown,
        St_audio ?ep ''audio/wav'',
        St_download_button ''Download Audio (WAV)'' ?ep file_name ''audio/wav'']"
    using assms(7) by (auto simp add: present_def Let_def)
  from c r5 have o: "on_extract w True Wav name vp streams k s = cleanup w vp s5"
    by (simp add: on_extract_def)
  have "only_warns s5 (cleanup w vp s5)" by (rule only_warns_cleanup)
  then have "written (cleanup w vp s5) = written s5"
    and "\<exists>ws. ui (cleanup w vp s5) = ui s5 @ ws \<and> list_all is_warning ws"
    by (simp_all add: only_warns_def)
  with o w5 u5 show ?thesis by auto
qed

text \<open>
  C2, as amended. On a silent, non-empty track the division of line 152 raises nothing:
  every sample becomes NaN. The NaN signal is what \<^verbatim>\<open>sf.write\<close> receives, and when the
  write succeeds the run goes on: with the WAV target it shows the success banner, the
  player and the download button for the enhanced file, and after them only warnings of
  the cleanup. No error is shown and the handler of line 188 is not entered.
\<close>

theorem silent_track_is_not_a_failure:
  assumes "run_bytes w (ffmpeg_cmd vp k (tmp_audio_stem w @ ''.wav'')) = Inr result"
    and "returncode result = 0"
    and "librosa_load w (tmp_audio_stem w @ ''.wav'') = Inr (y, sr)"
    and "librosa_preemphasis w y = Inr y1"
    and "y1 \<noteq> []"
    and "list_all (\<lambda>x. x = 0) y1"
    and "sf_write w (str_replace ''.wav'' ''_enhanced.wav'' (tmp_audio_stem w @ ''.wav''))
           (replicate (length y1) NaN) sr = None"
    and "k < length streams"
  shows "peak_normalize y1 = Inr (replicate (length y1) NaN)
    \<and> written (on_extract w True Wav name vp streams k s)
        = written s @ [(str_replace ''.wav'' ''_enhanced.wav'' (tmp_audio_stem w @ ''.wav''),
                        replicate (length y1) NaN, sr)]
    \<and> (\<exists>shown file_name ws. ui (on_extract w True Wav name vp streams k s)
          = ui s @ [St_info ''Applying ML audio enhancement...'',
                    St_success ''Audio extracted successfully!'',
                    St_info shown,
                    St_audio (str_replace ''.wav'' ''_enhanced.wav'' (tmp_audio_stem w @ ''.wav''))
                      ''audio/wav'',
                    St_download_button ''Download Audio (WAV)''
                      (str_replace ''.wav'' ''_enhanced.wav'' (tmp_audio_stem w @ ''.wav''))
                      file_name ''audio/wav''] @ ws
         \<and> list_all is_warning ws)"
proof -
  have p: "peak_normalize y1 = Inr (replicate (length y1) NaN)"
    using assms(5,6) by (rule peak_normalize_silent)
  from on_extract_enhanced_wav [where name = name and s = s, OF assms(1,2,3,4) p assms(7,8)] p
  show ?thesis by simp
qed

lemma demo_world_run_bytes:
  "run_bytes demo_world cmd = Inr \<lparr>returncode = 0, stdout = [], stderr = []\<rparr>"
  by (simp add: demo_world_def)

lemma replace_tmp_a:
  "str_replace ''.wav'' ''_enhanced.wav'' (tmp_audio_stem demo_world @ ''.wav'')
     = ''/tmp/a_enhanced.wav''"
  using str_replace_suffix [OF find_tmp_a] by (simp add: demo_world_enhance_facts)

theorem silent_track_is_not_a_failure_witness:
  "peak_normalize [0, 0, 0] = Inr (replicate (length [0, 0, 0 :: real]) NaN)
   \<and> written (on_extract demo_world True Wav ''clip.mp4'' ''/tmp/v.mp4'' [eng_info, eng_info] 1
                init_state)
       = written init_state @ [(''/tmp/a_enhanced.wav'', replicate (length [0, 0, 0 :: real]) NaN, 44100)]
   \<and> (\<exists>shown file_name ws.
         ui (on_extract demo_world True Wav ''clip.mp4'' ''/tmp/v.mp4'' [eng_info, eng_info] 1
               init_state)
           = ui init_state @ [St_info ''Applying ML audio enhancement...'',
                St_success ''Audio extracted successfully!'',
                St_info shown,
                St_audio ''/tmp/a_enhanced.wav'' ''audio/wav'',
                St_download_button ''Download Audio (WAV)'' ''/tmp/a_enhanced.wav'' file_name
                  ''audio/wav''] @ ws
         \<and> list_all is_warning ws)"
proof -
  have r: "returncode \<lparr>returncode = 0, stdout = [], stderr = [] :: bytes\<rparr> = 0" by simp
  have n: "[0, 0, 0 :: real] \<noteq> []" and z: "list_all (\<lambda>x. x = 0) [0, 0, 0 :: real]"
    by simp_all
  have k: "(1::nat) < length [eng_info, eng_info]" by simp
  from silent_track_is_not_a_failure [where vp = "''/tmp/v.mp4''" and name = "''clip.mp4''"
      and s = init_state, OF demo_world_run_bytes r demo_world_enhance_facts(1)
      demo_world_enhance_facts(2) n z demo_world_enhance_facts(3) k]
  show ?thesis by (simp only: replace_tmp_a)
qed

text \<open>
  C2 as stated fails: on the silent track of \<open>demo_world\<close> the page shows no error at all,
  and it offers the output.
\<close>

theorem silent_track_counterexample:
  "\<not> list_ex is_error
       (ui (on_extract demo_world True Wav ''clip.mp4'' ''/tmp/v.mp4'' [eng_info] 0 init_state))
   \<and> list_ex offers_output
       (ui (on_extract demo_world True Wav ''clip.mp4'' ''/tmp/v.mp4'' [eng_info] 0 init_state))"
proof -
  have r: "returncode \<lparr>returncode = 0, stdout = [], stderr = [] :: bytes\<rparr> = 0" by simp
  have p: "peak_normalize [0, 0, 0] = Inr [NaN, NaN, NaN]"
    using peak_normalize_silent [of "[0, 0, 0]"] by (simp add: numeral_3_eq_3)
  have k: "(0::nat) < length [eng_info]" by simp
  from on_extract_enhanced_wav [where vp = "''/tmp/v.mp4''" and name = "''clip.mp4''"
      and s = init_state, OF demo_world_run_bytes r demo_world_enhance_facts(1)
      demo_world_enhance_facts(2) p demo_world_enhance_facts(3) k]
  obtain shown file_name ws where
    u: "ui (on_extract demo_world True Wav ''clip.mp4'' ''/tmp/v.mp4'' [eng_info] 0 init_state)
      = ui init_state @ [St_info ''Applying ML audio enhancement...'',
          St_success ''Audio extracted successfully!'', St_info shown,
          St_audio (str_replace ''.wav'' ''_enhanced.wav'' (tmp_audio_stem demo_world @ ''.wav''))
            ''audio/wav'',
          St_download_button ''Download Audio (WAV)''
            (str_replace ''.wav'' ''_enhanced.wav'' (tmp_audio_stem demo_world @ ''.wav''))
            file_name ''audio/wav''] @ ws"
    and ws: "list_all is_warning ws"
    by blast
  from ws have "\<not> list_ex is_error ws" by (rule warnings_are_not_errors)
  then show ?thesis
    unfolding u by (simp add: init_state_def)
qed

end
